theory Spec2Isabelle
  imports
    Complex_Main
    "HOL-Library.Multiset"
    "HOL-Library.Option_ord"
    "HOL-Library.Char_ord"
    "HOL-Library.List_Lexorder"
begin

section \<open>The ledger store\<close>

text \<open>
  The tables of \<^verbatim>\<open>server/database.js\<close>, one record per row. A \<^verbatim>\<open>REAL\<close> column
  holds a finite number, modelled as an exact real (rounding of doubles is not
  modelled); a nullable column is an \<open>option\<close>, \<open>None\<close> being SQL \<^verbatim>\<open>NULL\<close>. The
  \<^verbatim>\<open>CHECK(type IN ('Buy', 'Sell', 'Income'))\<close> constraint of \<^verbatim>\<open>trades\<close> is the
  datatype \<open>trade_type\<close>. The numeric columns of \<^verbatim>\<open>perf_tracker\<close> are a type
  parameter, since the two writers of that table bind different kinds of values. The
  timestamps \<^verbatim>\<open>created_at\<close> and \<^verbatim>\<open>updated_at\<close> are left out.
\<close>

datatype trade_type = Buy | Sell | Income

datatype investor_type = GP | LP

record trade =
  t_id :: nat
  t_date :: string
  t_token :: string
  t_units :: real
  t_avg_price :: "real option"
  t_total :: "real option"
  t_type :: trade_type
  t_notes :: "string option"

record investor =
  i_id :: nat
  i_month :: string
  i_client :: string
  i_type :: investor_type
  i_amount :: real

record 'v perf_row =
  p_id :: nat
  p_month :: string
  gp_subs :: 'v
  lp_subs :: 'v
  initial_value :: 'v
  ending_value :: 'v
  motus_return :: 'v
  btc_return :: 'v
  eth_return :: 'v
  cci30_return :: 'v
  sp_ex_mega_return :: 'v
  spx_return :: 'v
  qqq_return :: 'v
  fund_expenses :: 'v
  mgmt_fees :: 'v
  setup_costs :: 'v

record exit_row =
  e_id :: nat
  e_token :: string
  e_cost_basis :: real
  e_exit_date :: "string option"

record database =
  trades :: "trade list"
  investors :: "investor list"
  perf_tracker :: "real option perf_row list"
  exits :: "exit_row list"

subsection \<open>SQL aggregates and JavaScript coercions\<close>

text \<open>
  \<^verbatim>\<open>SUM\<close> skips \<^verbatim>\<open>NULL\<close>s and is \<^verbatim>\<open>NULL\<close> when no non-\<^verbatim>\<open>NULL\<close> value is left;
  \<^verbatim>\<open>COALESCE(x, 0)\<close> replaces \<^verbatim>\<open>NULL\<close> by 0; \<^verbatim>\<open>x || 0\<close> in JavaScript replaces a
  falsy \<open>x\<close> (\<^verbatim>\<open>null\<close> or 0 here) by 0. \<^verbatim>\<open>UPPER\<close> maps the ASCII letters only, and
  so does \<^verbatim>\<open>toUpperCase\<close> on ASCII strings.
\<close>

definition sql_sum :: "real option list \<Rightarrow> real option" where
  "sql_sum vs = (case List.map_filter (\<lambda>v. v) vs of [] \<Rightarrow> None | x # xs \<Rightarrow> Some (sum_list (x # xs)))"

definition coalesce0 :: "real option \<Rightarrow> real option" where
  "coalesce0 v = (case v of None \<Rightarrow> Some 0 | Some x \<Rightarrow> Some x)"

definition or0 :: "real option \<Rightarrow> real" where
  "or0 v = (case v of None \<Rightarrow> 0 | Some x \<Rightarrow> if x = 0 then 0 else x)"

definition upper_char :: "char \<Rightarrow> char" where
  "upper_char c =
     (case map_of (zip ''abcdefghijklmnopqrstuvwxyz'' ''ABCDEFGHIJKLMNOPQRSTUVWXYZ'') c of
        None \<Rightarrow> c | Some u \<Rightarrow> u)"

definition upper :: "string \<Rightarrow> string" where
  "upper s = map upper_char s"

subsection \<open>GET /portfolio: the holdings aggregator\<close>

record holding_row =
  h_token :: string
  total_units :: "real option"
  cost_basis :: "real option"

text \<open>The two \<^verbatim>\<open>CASE\<close> expressions of the query, per trade.\<close>

definition units_case :: "trade \<Rightarrow> real option" where
  "units_case t =
     (case t_type t of Buy \<Rightarrow> Some (t_units t) | Sell \<Rightarrow> Some (- t_units t)
      | Income \<Rightarrow> Some (t_units t))"

definition cost_case :: "trade \<Rightarrow> real option" where
  "cost_case t =
     (case t_type t of Buy \<Rightarrow> t_total t | Sell \<Rightarrow> map_option uminus (t_total t)
      | Income \<Rightarrow> Some 0)"

text \<open>\<^verbatim>\<open>GROUP BY token\<close>: one row per distinct stored token (binary collation).\<close>

definition group_of :: "string \<Rightarrow> trade list \<Rightarrow> trade list" where
  "group_of k ts = filter (\<lambda>t. t_token t = k) ts"

definition portfolio_groups :: "trade list \<Rightarrow> holding_row list" where
  "portfolio_groups ts =
     map (\<lambda>k. \<lparr>h_token = k,
                total_units = sql_sum (map units_case (group_of k ts)),
                cost_basis = sql_sum (map cost_case (group_of k ts))\<rparr>)
       (remdups (map t_token ts))"

text \<open>\<^verbatim>\<open>HAVING total_units > 0.0001 OR total_units < -0.0001\<close>.\<close>

definition having_units :: "holding_row \<Rightarrow> bool" where
  "having_units h =
     (case total_units h of None \<Rightarrow> False | Some u \<Rightarrow> u > 1 / 10000 \<or> u < - (1 / 10000))"

text \<open>
  \<^verbatim>\<open>ORDER BY cost_basis DESC\<close>: \<^verbatim>\<open>NULL\<close> is the least value of SQLite's order, so it
  comes last; the order among equal keys is not specified by SQL.
\<close>

definition order_by_cost_basis_desc :: "holding_row list \<Rightarrow> holding_row list" where
  "order_by_cost_basis_desc hs = rev (sort_key cost_basis hs)"

definition portfolio :: "trade list \<Rightarrow> holding_row list" where
  "portfolio ts = order_by_cost_basis_desc (filter having_units (portfolio_groups ts))"

subsection \<open>GET /portfolio/usdc: the cash residual\<close>

record usdc_response =
  total_subscriptions :: real
  u_cost_basis :: real
  total_expenses :: real
  exits_cost_basis :: real
  usdc_balance :: real

definition subscriptions_total :: "investor list \<Rightarrow> real option" where
  "subscriptions_total is = coalesce0 (sql_sum (map (\<lambda>i. Some (i_amount i)) is))"

definition costBasis_total :: "trade list \<Rightarrow> real option" where
  "costBasis_total ts =
     coalesce0 (sql_sum (map cost_case (filter (\<lambda>t. upper (t_token t) \<noteq> ''USDC'') ts)))"

definition exitsCostBasis_total :: "exit_row list \<Rightarrow> real option" where
  "exitsCostBasis_total es = coalesce0 (sql_sum (map (\<lambda>e. Some (e_cost_basis e)) es))"

definition totalExpenses :: "real option perf_row list \<Rightarrow> real" where
  "totalExpenses ps =
     or0 (coalesce0 (sql_sum (map fund_expenses ps)))
     + or0 (coalesce0 (sql_sum (map mgmt_fees ps)))
     + or0 (coalesce0 (sql_sum (map setup_costs ps)))"

definition portfolio_usdc :: "database \<Rightarrow> usdc_response" where
  "portfolio_usdc db =
     (let subscriptions = subscriptions_total (investors db);
          costBasis = costBasis_total (trades db);
          exitsCostBasis = exitsCostBasis_total (exits db);
          usdcBalance = or0 subscriptions - or0 costBasis - totalExpenses (perf_tracker db)
                        - or0 exitsCostBasis
      in \<lparr>total_subscriptions = or0 subscriptions,
          u_cost_basis = or0 costBasis,
          total_expenses = totalExpenses (perf_tracker db),
          exits_cost_basis = or0 exitsCostBasis,
          usdc_balance = usdcBalance\<rparr>)"

subsection \<open>The cash residual as the specification words it\<close>

text \<open>
  The four terms of the formula as plain sums over the ledger. A missing amount
  (\<^verbatim>\<open>NULL\<close>) counts as 0.
\<close>

definition num0 :: "real option \<Rightarrow> real" where
  "num0 v = (case v of None \<Rightarrow> 0 | Some x \<Rightarrow> x)"

definition signed_total :: "trade \<Rightarrow> real" where
  "signed_total t =
     (case t_type t of Buy \<Rightarrow> num0 (t_total t) | Sell \<Rightarrow> - num0 (t_total t) | Income \<Rightarrow> 0)"

definition spec_total_subscriptions :: "investor list \<Rightarrow> real" where
  "spec_total_subscriptions is = sum_list (map i_amount is)"

definition spec_total_cost_basis :: "trade list \<Rightarrow> real" where
  "spec_total_cost_basis ts =
     sum_list (map signed_total (filter (\<lambda>t. upper (t_token t) \<noteq> ''USDC'') ts))"

definition spec_total_expenses :: "real option perf_row list \<Rightarrow> real" where
  "spec_total_expenses ps =
     sum_list (map (\<lambda>p. num0 (fund_expenses p) + num0 (mgmt_fees p) + num0 (setup_costs p)) ps)"

definition spec_exits_cost_basis :: "exit_row list \<Rightarrow> real" where
  "spec_exits_cost_basis es = sum_list (map e_cost_basis es)"

subsection \<open>GET /checker/portfolio: the reconciliation breakdown\<close>

record checker_row =
  c_token :: string
  buy_units :: "real option"
  sell_units :: "real option"
  income_units :: "real option"
  net_units :: "real option"
  buy_total :: "real option"
  sell_total :: "real option"
  c_cost_basis :: "real option"
  trade_count :: nat

definition case_units_of :: "trade_type \<Rightarrow> trade \<Rightarrow> real option" where
  "case_units_of ty t = (if t_type t = ty then Some (t_units t) else Some 0)"

definition case_total_of :: "trade_type \<Rightarrow> trade \<Rightarrow> real option" where
  "case_total_of ty t = (if t_type t = ty then t_total t else Some 0)"

text \<open>The query groups by token without a \<^verbatim>\<open>HAVING\<close> clause and orders by token.\<close>

definition checker_holdings :: "trade list \<Rightarrow> checker_row list" where
  "checker_holdings ts =
     sort_key c_token
       (map (\<lambda>k. \<lparr>c_token = k,
                  buy_units = sql_sum (map (case_units_of Buy) (group_of k ts)),
                  sell_units = sql_sum (map (case_units_of Sell) (group_of k ts)),
                  income_units = sql_sum (map (case_units_of Income) (group_of k ts)),
                  net_units = sql_sum (map units_case (group_of k ts)),
                  buy_total = sql_sum (map (case_total_of Buy) (group_of k ts)),
                  sell_total = sql_sum (map (case_total_of Sell) (group_of k ts)),
                  c_cost_basis = sql_sum (map cost_case (group_of k ts)),
                  trade_count = length (group_of k ts)\<rparr>)
         (remdups (map t_token ts)))"

text \<open>
  \<^verbatim>\<open>holdings.filter(h => h.token.toUpperCase() !== 'USDC')
          .reduce((sum, h) => sum + (h.cost_basis || 0), 0)\<close>
\<close>

definition checker_totalCostBasis :: "trade list \<Rightarrow> real" where
  "checker_totalCostBasis ts =
     foldl (\<lambda>sum h. sum + or0 (c_cost_basis h)) 0
       (filter (\<lambda>h. upper (c_token h) \<noteq> ''USDC'') (checker_holdings ts))"

subsection \<open>The holdings' cost basis as the specification sums it\<close>

text \<open>
  The sum of the \<open>cost_basis\<close> values of a list of holdings over the tokens other
  than USDC; a \<^verbatim>\<open>NULL\<close> cost basis counts as 0.
\<close>

definition holdings_cost_basis_sum :: "holding_row list \<Rightarrow> real" where
  "holdings_cost_basis_sum hs =
     sum_list (map (\<lambda>h. num0 (cost_basis h)) (filter (\<lambda>h. upper (h_token h) \<noteq> ''USDC'') hs))"

text \<open>The tokens the dust filter drops.\<close>

definition dust_groups :: "trade list \<Rightarrow> holding_row list" where
  "dust_groups ts = filter (\<lambda>h. \<not> having_units h) (portfolio_groups ts)"

text \<open>A ledger of one trade, and the ledger of a position sold out at a profit.\<close>

definition one_trade :: "string \<Rightarrow> trade_type \<Rightarrow> real \<Rightarrow> real option \<Rightarrow> trade" where
  "one_trade k ty u tot =
     \<lparr>t_id = 1, t_date = ''2024-01-15'', t_token = k, t_units = u, t_avg_price = None,
      t_total = tot, t_type = ty, t_notes = None\<rparr>"

definition exited_ledger :: "trade list" where
  "exited_ledger =
     [one_trade ''XYZ'' Buy 10 (Some 1000), (one_trade ''XYZ'' Sell 10 (Some 1500))\<lparr>t_id := 2\<rparr>]"

definition dust_boundary_ledger :: "trade list" where
  "dust_boundary_ledger = [one_trade ''ABC'' Buy (1 / 10000) None]"

text \<open>Dust as the specification words it: the absolute net units are below 1e-4.\<close>

definition spec_is_dust :: "holding_row \<Rightarrow> bool" where
  "spec_is_dust h = (\<bar>num0 (total_units h)\<bar> < 1 / 10000)"

section \<open>The client: prices, valuation and returns\<close>

subsection \<open>JavaScript numbers\<close>

text \<open>
  A JavaScript number is a finite value, an infinity or \<^verbatim>\<open>NaN\<close>. Arithmetic on finite
  values is exact in \<open>jadd\<close>, \<open>jmul\<close> and \<open>jdiv\<close>: they give the results as
  long as these stay within the range of doubles, and \<open>dadd\<close>, \<open>dmul\<close> and \<open>ddiv\<close>
  below add the overflow to an infinity. Rounding is not modelled, and neither is the
  sign of zero. The special values follow IEEE 754: a division by zero gives an
  infinity or \<^verbatim>\<open>NaN\<close>, every comparison with \<^verbatim>\<open>NaN\<close> is false. A number that came
  through JSON is finite or \<^verbatim>\<open>null\<close>, a \<open>real option\<close>; \<^verbatim>\<open>null\<close> converts to 0 in
  arithmetic. The holdings, the cash data and the performance records of the client
  are the rows the endpoints answer with: a finite number passes through JSON as it is.
\<close>

datatype jsnum = Fin real | PInf | NInf | NaN

fun is_finite :: "jsnum \<Rightarrow> bool" where
  "is_finite (Fin x) = True"
| "is_finite _ = False"

fun isNaN :: "jsnum \<Rightarrow> bool" where
  "isNaN NaN = True"
| "isNaN _ = False"

fun jneg :: "jsnum \<Rightarrow> jsnum" where
  "jneg (Fin x) = Fin (- x)"
| "jneg PInf = NInf"
| "jneg NInf = PInf"
| "jneg NaN = NaN"

fun jadd :: "jsnum \<Rightarrow> jsnum \<Rightarrow> jsnum" where
  "jadd (Fin a) (Fin b) = Fin (a + b)"
| "jadd NaN _ = NaN"
| "jadd _ NaN = NaN"
| "jadd PInf NInf = NaN"
| "jadd NInf PInf = NaN"
| "jadd PInf _ = PInf"
| "jadd _ PInf = PInf"
| "jadd NInf _ = NInf"
| "jadd _ NInf = NInf"

definition jsub :: "jsnum \<Rightarrow> jsnum \<Rightarrow> jsnum" where
  "jsub a b = jadd a (jneg b)"

text \<open>The sign of a number that is neither 0 nor \<^verbatim>\<open>NaN\<close>: \<open>True\<close> for positive.\<close>

fun positive :: "jsnum \<Rightarrow> bool" where
  "positive (Fin x) = (0 < x)"
| "positive PInf = True"
| "positive _ = False"

definition inf_of :: "bool \<Rightarrow> jsnum" where
  "inf_of pos = (if pos then PInf else NInf)"

fun jmul :: "jsnum \<Rightarrow> jsnum \<Rightarrow> jsnum" where
  "jmul (Fin a) (Fin b) = Fin (a * b)"
| "jmul NaN _ = NaN"
| "jmul _ NaN = NaN"
| "jmul (Fin a) b = (if a = 0 then NaN else inf_of (positive (Fin a) = positive b))"
| "jmul a (Fin b) = (if b = 0 then NaN else inf_of (positive a = positive (Fin b)))"
| "jmul a b = inf_of (positive a = positive b)"

fun jdiv :: "jsnum \<Rightarrow> jsnum \<Rightarrow> jsnum" where
  "jdiv (Fin a) (Fin b) =
     (if b = 0 then (if a = 0 then NaN else inf_of (0 < a)) else Fin (a / b))"
| "jdiv NaN _ = NaN"
| "jdiv _ NaN = NaN"
| "jdiv (Fin a) _ = Fin 0"
| "jdiv a (Fin b) = inf_of (positive a = (0 \<le> b))"
| "jdiv _ _ = NaN"

fun jgt :: "jsnum \<Rightarrow> jsnum \<Rightarrow> bool" where
  "jgt (Fin a) (Fin b) = (b < a)"
| "jgt NaN _ = False"
| "jgt _ NaN = False"
| "jgt PInf b = (b \<noteq> PInf)"
| "jgt a NInf = (a \<noteq> NInf)"
| "jgt _ _ = False"

definition toNumber :: "real option \<Rightarrow> jsnum" where
  "toNumber v = (case v of None \<Rightarrow> Fin 0 | Some x \<Rightarrow> Fin x)"

text \<open>\<^verbatim>\<open>xs.pop()\<close> on a fresh array: the last element, \<^verbatim>\<open>undefined\<close> when there is none.\<close>

definition pop :: "'a list \<Rightarrow> 'a option" where
  "pop xs = (if xs = [] then None else Some (last xs))"

subsection \<open>mergedPrices: the price resolver\<close>

text \<open>
  A quote as the client holds it. A live quote of \<^verbatim>\<open>GET /prices\<close> has no
  \<^verbatim>\<open>isManual\<close> field (\<open>False\<close>) and numbers everywhere; a manual quote has the four
  percent changes \<^verbatim>\<open>null\<close> and no market data (\<open>None\<close>).
\<close>

record quote =
  price :: real
  isManual :: bool
  percent_change_24h :: "real option"
  percent_change_7d :: "real option"
  percent_change_30d :: "real option"
  percent_change_60d :: "real option"
  market_cap :: "real option"
  volume_24h :: "real option"
  name :: "string option"

record manual_price =
  mp_id :: nat
  mp_token :: string
  mp_price :: real
  mp_updated_at :: string

definition manual_quote :: "manual_price \<Rightarrow> quote" where
  "manual_quote mp =
     \<lparr>price = mp_price mp, isManual = True,
      percent_change_24h = None, percent_change_7d = None,
      percent_change_30d = None, percent_change_60d = None,
      market_cap = None, volume_24h = None, name = None\<rparr>"

text \<open>\<^verbatim>\<open>!merged[mp.token] || !merged[mp.token].price\<close>\<close>

definition no_price :: "(string \<rightharpoonup> quote) \<Rightarrow> string \<Rightarrow> bool" where
  "no_price merged k = (case merged k of None \<Rightarrow> True | Some q \<Rightarrow> price q = 0)"

definition merge_step :: "(string \<rightharpoonup> quote) \<Rightarrow> manual_price \<Rightarrow> (string \<rightharpoonup> quote)" where
  "merge_step merged mp =
     (if no_price merged (mp_token mp) then merged(mp_token mp \<mapsto> manual_quote mp) else merged)"

definition mergedPrices :: "(string \<rightharpoonup> quote) \<Rightarrow> manual_price list \<Rightarrow> (string \<rightharpoonup> quote)" where
  "mergedPrices prices manualPrices = foldl merge_step prices manualPrices"

subsection \<open>calculatePortfolioValue\<close>

text \<open>\<^verbatim>\<open>mergedPrices[token]?.price || 0\<close>\<close>

definition price_or0 :: "(string \<rightharpoonup> quote) \<Rightarrow> string \<Rightarrow> real" where
  "price_or0 m k = (case m k of None \<Rightarrow> 0 | Some q \<Rightarrow> if price q = 0 then 0 else price q)"

definition calculatePortfolioValue ::
  "holding_row list \<Rightarrow> (string \<rightharpoonup> quote) \<Rightarrow> usdc_response option \<Rightarrow> jsnum" where
  "calculatePortfolioValue holdings merged usdcData =
     (let totalValue =
        foldl (\<lambda>totalValue holding.
                 jadd totalValue
                   (jmul (toNumber (total_units holding))
                      (Fin (price_or0 merged (upper (h_token holding))))))
          (Fin 0) holdings
      in case usdcData of None \<Rightarrow> totalValue
         | Some u \<Rightarrow> jadd totalValue (Fin (usdc_balance u)))"

subsection \<open>calculateReturns\<close>

text \<open>
  The clock is read twice: \<open>currentMonth\<close> is
  \<^verbatim>\<open>new Date().toISOString().slice(0, 7)\<close> and \<open>currentYear\<close> is
  \<^verbatim>\<open>new Date().getFullYear()\<close>. Months are compared as strings, code unit by code
  unit; on strings of the form YYYY-MM \<^verbatim>\<open>localeCompare\<close> gives the same order, and
  the sort is stable.
\<close>

definition digit_char :: "nat \<Rightarrow> char" where
  "digit_char n = ''0123456789'' ! (n mod 10)"

function string_of_nat :: "nat \<Rightarrow> string" where
  "string_of_nat n =
     (if n < 10 then [digit_char n] else string_of_nat (n div 10) @ [digit_char (n mod 10)])"
  by pat_completeness auto
termination
  by (relation "measure (\<lambda>n. n)") auto

declare string_of_nat.simps [simp del]

text \<open>\<^verbatim>\<open>String(i)\<close> of an integer, and \<^verbatim>\<open>s.startsWith(p)\<close>.\<close>

definition string_of_int :: "int \<Rightarrow> string" where
  "string_of_int i = (if i < 0 then CHR ''-'' # string_of_nat (nat (- i)) else string_of_nat (nat i))"

definition startsWith :: "string \<Rightarrow> string \<Rightarrow> bool" where
  "startsWith s p = (take (length p) s = p)"

definition sortedPerf :: "real option perf_row list \<Rightarrow> real option perf_row list" where
  "sortedPerf perfTracker = sort_key p_month perfTracker"

definition lastMonthRecord :: "real option perf_row list \<Rightarrow> string \<Rightarrow> real option perf_row option" where
  "lastMonthRecord perfTracker currentMonth =
     pop (filter (\<lambda>p. p_month p < currentMonth) (sortedPerf perfTracker))"

text \<open>\<^verbatim>\<open>usdcData?.total_subscriptions || 0\<close>\<close>

definition subscriptions_or0 :: "usdc_response option \<Rightarrow> jsnum" where
  "subscriptions_or0 usdcData =
     (case usdcData of None \<Rightarrow> Fin 0
      | Some u \<Rightarrow> if total_subscriptions u = 0 then Fin 0 else Fin (total_subscriptions u))"

text \<open>\<^verbatim>\<open>record?.ending_value || fallback\<close>\<close>

definition ending_value_or :: "real option perf_row option \<Rightarrow> jsnum \<Rightarrow> jsnum" where
  "ending_value_or r fallback =
     (case r of None \<Rightarrow> fallback
      | Some p \<Rightarrow> (case ending_value p of None \<Rightarrow> fallback
                   | Some v \<Rightarrow> if v = 0 then fallback else Fin v))"

definition beginningValue ::
  "real option perf_row list \<Rightarrow> usdc_response option \<Rightarrow> string \<Rightarrow> jsnum" where
  "beginningValue perfTracker usdcData currentMonth =
     ending_value_or (lastMonthRecord perfTracker currentMonth) (subscriptions_or0 usdcData)"

definition lastYearEnd :: "real option perf_row list \<Rightarrow> int \<Rightarrow> real option perf_row option" where
  "lastYearEnd perfTracker currentYear =
     pop (filter (\<lambda>p. startsWith (p_month p) (string_of_int (currentYear - 1)))
            (sortedPerf perfTracker))"

definition yearStartValue ::
  "real option perf_row list \<Rightarrow> usdc_response option \<Rightarrow> string \<Rightarrow> int \<Rightarrow> jsnum" where
  "yearStartValue perfTracker usdcData currentMonth currentYear =
     ending_value_or (lastYearEnd perfTracker currentYear)
       (beginningValue perfTracker usdcData currentMonth)"

definition initialValue :: "real option perf_row list \<Rightarrow> usdc_response option \<Rightarrow> jsnum" where
  "initialValue perfTracker usdcData =
     (case sortedPerf perfTracker of
        [] \<Rightarrow> subscriptions_or0 usdcData
      | firstRecord # _ \<Rightarrow> jadd (toNumber (gp_subs firstRecord)) (toNumber (lp_subs firstRecord)))"

text \<open>\<^verbatim>\<open>d > 0 ? ((totalValue / d) - 1) * 100 : 0\<close>\<close>

definition return_pct :: "jsnum \<Rightarrow> jsnum \<Rightarrow> jsnum" where
  "return_pct totalValue d =
     (if jgt d (Fin 0) then jmul (jsub (jdiv totalValue d) (Fin 1)) (Fin 100) else Fin 0)"

record returns =
  mtd :: jsnum
  ytd :: jsnum
  sinceInception :: jsnum

definition calculateReturns ::
  "holding_row list \<Rightarrow> (string \<rightharpoonup> quote) \<Rightarrow> usdc_response option
   \<Rightarrow> real option perf_row list \<Rightarrow> string \<Rightarrow> int \<Rightarrow> returns" where
  "calculateReturns holdings merged usdcData perfTracker currentMonth currentYear =
     (let totalValue = calculatePortfolioValue holdings merged usdcData
      in \<lparr>mtd = return_pct totalValue (beginningValue perfTracker usdcData currentMonth),
          ytd = return_pct totalValue
                  (yearStartValue perfTracker usdcData currentMonth currentYear),
          sinceInception = return_pct totalValue (initialValue perfTracker usdcData)\<rparr>)"

text \<open>Sample quotes: a live quote with a given price, and a manual override for XYZ.\<close>

definition live_quote :: "real \<Rightarrow> quote" where
  "live_quote p =
     \<lparr>price = p, isManual = False,
      percent_change_24h = Some 0, percent_change_7d = Some 0,
      percent_change_30d = Some 0, percent_change_60d = Some 0,
      market_cap = Some 0, volume_24h = Some 0, name = None\<rparr>"

definition xyz_manual :: manual_price where
  "xyz_manual =
     \<lparr>mp_id = 1, mp_token = ''XYZ'', mp_price = 10, mp_updated_at = ''2024-01-15 00:00:00''\<rparr>"

text \<open>The market value of one holding, as \<open>calculatePortfolioValue\<close> adds it.\<close>

definition holding_value :: "(string \<rightharpoonup> quote) \<Rightarrow> holding_row \<Rightarrow> real" where
  "holding_value m h = num0 (total_units h) * price_or0 m (upper (h_token h))"


subsection \<open>The beginning-of-month value as the specification words it\<close>

text \<open>
  The \<open>ending_value\<close> of the latest record strictly before the current month; the
  total subscriptions when there is no such record.
\<close>

definition spec_beginning_value ::
  "real option perf_row list \<Rightarrow> usdc_response option \<Rightarrow> string \<Rightarrow> jsnum" where
  "spec_beginning_value perfTracker usdcData currentMonth =
     (case lastMonthRecord perfTracker currentMonth of
        None \<Rightarrow> Fin (case usdcData of None \<Rightarrow> 0 | Some u \<Rightarrow> total_subscriptions u)
      | Some r \<Rightarrow> toNumber (ending_value r))"

text \<open>
  Sample data: a monthly record with a given id, month and ending value; a fund whose
  100000 of subscriptions are fully invested; the two BTC it holds.
\<close>

definition perf_record :: "nat \<Rightarrow> string \<Rightarrow> real \<Rightarrow> real option perf_row" where
  "perf_record i m ev =
     \<lparr>p_id = i, p_month = m, gp_subs = Some 0, lp_subs = Some 0, initial_value = Some 0,
      ending_value = Some ev, motus_return = Some 0, btc_return = Some 0, eth_return = Some 0,
      cci30_return = Some 0, sp_ex_mega_return = Some 0, spx_return = Some 0,
      qqq_return = Some 0, fund_expenses = Some 0, mgmt_fees = Some 0, setup_costs = Some 0\<rparr>"

definition invested_cash :: usdc_response where
  "invested_cash =
     \<lparr>total_subscriptions = 100000, u_cost_basis = 100000, total_expenses = 0,
      exits_cost_basis = 0, usdc_balance = 0\<rparr>"

definition btc_holding :: holding_row where
  "btc_holding = \<lparr>h_token = ''BTC'', total_units = Some 2, cost_basis = Some 100000\<rparr>"

subsection \<open>The range of doubles\<close>

text \<open>
  A double holds magnitudes up to \<open>2 ^ 1024 - 2 ^ 971\<close>. Under round-to-nearest a result
  whose magnitude reaches \<open>2 ^ 1024 - 2 ^ 970\<close>, half a unit in the last place above the
  largest double, becomes the infinity of its sign. \<open>dadd\<close>, \<open>dsub\<close>, \<open>dmul\<close> and
  \<open>ddiv\<close> are \<^verbatim>\<open>+\<close>, \<^verbatim>\<open>-\<close>, \<^verbatim>\<open>*\<close> and \<^verbatim>\<open>/\<close> with this overflow; on an infinity,
  on \<^verbatim>\<open>NaN\<close> and on a division by zero they are \<open>jadd\<close>, \<open>jmul\<close> and \<open>jdiv\<close>.
\<close>

definition double_limit :: real where
  "double_limit = 2 ^ 1024 - 2 ^ 970"

definition overflow :: "real \<Rightarrow> jsnum" where
  "overflow x =
     (if double_limit \<le> x then PInf else if x \<le> - double_limit then NInf else Fin x)"

fun dadd :: "jsnum \<Rightarrow> jsnum \<Rightarrow> jsnum" where
  "dadd (Fin a) (Fin b) = overflow (a + b)"
| "dadd a b = jadd a b"


fun dmul :: "jsnum \<Rightarrow> jsnum \<Rightarrow> jsnum" where
  "dmul (Fin a) (Fin b) = overflow (a * b)"
| "dmul a b = jmul a b"


text \<open>
  \<^verbatim>\<open>calculatePortfolioValue\<close> and \<^verbatim>\<open>calculateReturns\<close> once more, statement by
  statement as above, with every \<^verbatim>\<open>+\<close>, \<^verbatim>\<open>-\<close>, \<^verbatim>\<open>*\<close> and \<^verbatim>\<open>/\<close> of the source in
  the range of doubles. \<open>beginningValue\<close> and \<open>yearStartValue\<close> do no arithmetic and
  are the ones above.
\<close>

definition calculatePortfolioValue_double ::
  "holding_row list \<Rightarrow> (string \<rightharpoonup> quote) \<Rightarrow> usdc_response option \<Rightarrow> jsnum" where
  "calculatePortfolioValue_double holdings merged usdcData =
     (let totalValue =
        foldl (\<lambda>totalValue holding.
                 dadd totalValue
                   (dmul (toNumber (total_units holding))
                      (Fin (price_or0 merged (upper (h_token holding))))))
          (Fin 0) holdings
      in case usdcData of None \<Rightarrow> totalValue
         | Some u \<Rightarrow> dadd totalValue (Fin (usdc_balance u)))"






subsection \<open>PortfolioTab: enrichedHoldings\<close>

text \<open>
  A row of the portfolio table. \<open>holding\<close> is spread into it, so the token and the
  two stored numbers are as the endpoint sent them; a percent change is \<open>None\<close> when
  the quote has none (\<^verbatim>\<open>null\<close> or \<^verbatim>\<open>undefined\<close>).
\<close>

record enriched_holding =
  eh_token :: string
  eh_total_units :: "real option"
  eh_cost_basis :: "real option"
  currentPrice :: real
  currentValue :: jsnum
  pnl :: jsnum
  weight :: jsnum
  hasCMCData :: bool
  isManualPrice :: bool
  eh_percent_change_24h :: "real option"
  eh_percent_change_7d :: "real option"
  eh_percent_change_30d :: "real option"
  eh_percent_change_60d :: "real option"

text \<open>\<^verbatim>\<open>portfolioValue > 0 ? (value / portfolioValue) * 100 : 0\<close>\<close>

definition weight_pct :: "jsnum \<Rightarrow> jsnum \<Rightarrow> jsnum" where
  "weight_pct v portfolioValue =
     (if jgt portfolioValue (Fin 0) then jmul (jdiv v portfolioValue) (Fin 100) else Fin 0)"

definition enrich ::
  "(string \<rightharpoonup> quote) \<Rightarrow> (string \<rightharpoonup> quote) \<Rightarrow> jsnum \<Rightarrow> holding_row \<Rightarrow> enriched_holding" where
  "enrich prices cmcPrices portfolioValue holding =
     (let token = upper (h_token holding);
          priceData = prices token;
          currentPrice = price_or0 prices token;
          currentValue = jmul (toNumber (total_units holding)) (Fin currentPrice)
      in \<lparr>eh_token = h_token holding,
          eh_total_units = total_units holding,
          eh_cost_basis = cost_basis holding,
          currentPrice = currentPrice,
          currentValue = currentValue,
          pnl = jsub currentValue (toNumber (cost_basis holding)),
          weight = weight_pct currentValue portfolioValue,
          hasCMCData = (case cmcPrices token of None \<Rightarrow> False | Some q \<Rightarrow> price q \<noteq> 0),
          isManualPrice = (case priceData of None \<Rightarrow> False | Some q \<Rightarrow> isManual q),
          eh_percent_change_24h = (case priceData of None \<Rightarrow> None | Some q \<Rightarrow> percent_change_24h q),
          eh_percent_change_7d = (case priceData of None \<Rightarrow> None | Some q \<Rightarrow> percent_change_7d q),
          eh_percent_change_30d = (case priceData of None \<Rightarrow> None | Some q \<Rightarrow> percent_change_30d q),
          eh_percent_change_60d = (case priceData of None \<Rightarrow> None | Some q \<Rightarrow> percent_change_60d q)\<rparr>)"

text \<open>The object pushed for USDC.\<close>

definition usdc_item :: "usdc_response \<Rightarrow> jsnum \<Rightarrow> enriched_holding" where
  "usdc_item u portfolioValue =
     \<lparr>eh_token = ''USDC'',
      eh_total_units = Some (usdc_balance u),
      eh_cost_basis = Some (usdc_balance u),
      currentPrice = 1,
      currentValue = Fin (usdc_balance u),
      pnl = Fin 0,
      weight = weight_pct (Fin (usdc_balance u)) portfolioValue,
      hasCMCData = True,
      isManualPrice = False,
      eh_percent_change_24h = Some 0,
      eh_percent_change_7d = Some 0,
      eh_percent_change_30d = Some 0,
      eh_percent_change_60d = Some 0\<rparr>"

definition enrichedHoldings ::
  "holding_row list \<Rightarrow> (string \<rightharpoonup> quote) \<Rightarrow> (string \<rightharpoonup> quote) \<Rightarrow> usdc_response option
   \<Rightarrow> jsnum \<Rightarrow> enriched_holding list" where
  "enrichedHoldings holdings prices cmcPrices usdcData portfolioValue =
     map (enrich prices cmcPrices portfolioValue)
       (filter (\<lambda>h. upper (h_token h) \<noteq> ''USDC'') holdings)
     @ (case usdcData of None \<Rightarrow> []
        | Some u \<Rightarrow> if usdc_balance u \<noteq> 0 then [usdc_item u portfolioValue] else [])"

text \<open>The cash data of the specification's scenario: a residual of 45000.\<close>

definition residual_cash :: usdc_response where
  "residual_cash =
     \<lparr>total_subscriptions = 150000, u_cost_basis = 100000, total_expenses = 5000,
      exits_cost_basis = 0, usdc_balance = 45000\<rparr>"

section \<open>Spreadsheet upload\<close>

subsection \<open>Strings\<close>

text \<open>
  \<^verbatim>\<open>trim\<close>, \<^verbatim>\<open>toLowerCase\<close> and the character classes of the regular expressions,
  on ASCII: a \<open>char\<close> is a byte, so letters and white space beyond ASCII are not
  covered.
\<close>

definition lower_char :: "char \<Rightarrow> char" where
  "lower_char c =
     (case map_of (zip ''ABCDEFGHIJKLMNOPQRSTUVWXYZ'' ''abcdefghijklmnopqrstuvwxyz'') c of
        None \<Rightarrow> c | Some l \<Rightarrow> l)"

definition lower :: "string \<Rightarrow> string" where
  "lower s = map lower_char s"

definition is_space :: "char \<Rightarrow> bool" where
  "is_space c = (c \<in> set [CHR '' '', CHR 0x09, CHR 0x0A, CHR 0x0B, CHR 0x0C, CHR 0x0D])"

definition trim :: "string \<Rightarrow> string" where
  "trim s = rev (dropWhile is_space (rev (dropWhile is_space s)))"

definition is_digit :: "char \<Rightarrow> bool" where
  "is_digit c = (c \<in> set ''0123456789'')"

definition is_alpha :: "char \<Rightarrow> bool" where
  "is_alpha c = (c \<in> set ''ABCDEFGHIJKLMNOPQRSTUVWXYZabcdefghijklmnopqrstuvwxyz'')"

definition digit_val :: "char \<Rightarrow> nat" where
  "digit_val c = (case map_of (zip ''0123456789'' [0, 1, 2, 3, 4, 5, 6, 7, 8, 9]) c of None \<Rightarrow> 0 | Some d \<Rightarrow> d)"

definition digits_value :: "string \<Rightarrow> nat" where
  "digits_value s = foldl (\<lambda>n c. 10 * n + digit_val c) 0 s"

text \<open>\<^verbatim>\<open>s.padStart(2, '0')\<close>\<close>

definition pad2 :: "string \<Rightarrow> string" where
  "pad2 s = replicate (2 - length s) CHR ''0'' @ s"

fun split_on :: "char \<Rightarrow> string \<Rightarrow> string list" where
  "split_on sep [] = [[]]"
| "split_on sep (c # cs) =
     (if c = sep then [] # split_on sep cs
      else (case split_on sep cs of [] \<Rightarrow> [[c]] | w # ws \<Rightarrow> (c # w) # ws))"

subsection \<open>parseFloat\<close>

text \<open>
  \<^verbatim>\<open>parseFloat\<close> skips leading white space and reads the longest prefix that is a
  decimal literal: a sign, then \<^verbatim>\<open>Infinity\<close> or digits with an optional fraction and
  an optional exponent. Without such a prefix the result is \<^verbatim>\<open>NaN\<close>. The value is
  exact.
\<close>

definition exponent_of :: "string \<Rightarrow> int" where
  "exponent_of s =
     (case s of [] \<Rightarrow> 0
      | c # r \<Rightarrow>
          if c = CHR ''e'' \<or> c = CHR ''E'' then
            (let neg = (case r of [] \<Rightarrow> False | d # _ \<Rightarrow> d = CHR ''-'');
                 r' = (case r of [] \<Rightarrow> []
                       | d # r'' \<Rightarrow> if d = CHR ''+'' \<or> d = CHR ''-'' then r'' else r);
                 ed = takeWhile is_digit r'
             in if ed = [] then 0
                else if neg then - int (digits_value ed) else int (digits_value ed))
          else 0)"

definition parse_unsigned :: "string \<Rightarrow> jsnum" where
  "parse_unsigned s =
     (if startsWith s ''Infinity'' then PInf
      else
        (let ip = takeWhile is_digit s;
             r1 = dropWhile is_digit s;
             dot = (case r1 of [] \<Rightarrow> False | c # _ \<Rightarrow> c = CHR ''.'');
             fp = (if dot then takeWhile is_digit (tl r1) else []);
             r2 = (if dot then dropWhile is_digit (tl r1) else r1)
         in if ip = [] \<and> fp = [] then NaN
            else
              (let mant = real (digits_value ip) + real (digits_value fp) / 10 ^ length fp;
                   ex = exponent_of r2
               in Fin (if 0 \<le> ex then mant * 10 ^ nat ex else mant / 10 ^ nat (- ex)))))"

definition parseFloat :: "string \<Rightarrow> jsnum" where
  "parseFloat s =
     (case dropWhile is_space s of
        [] \<Rightarrow> NaN
      | c # r \<Rightarrow>
          if c = CHR ''-'' then jneg (parse_unsigned r)
          else if c = CHR ''+'' then parse_unsigned r
          else parse_unsigned (c # r))"

subsection \<open>Sheet rows\<close>

text \<open>
  \<^verbatim>\<open>XLSX.utils.sheet_to_json(sheet, { defval: null })\<close> with \<^verbatim>\<open>cellDates\<close> gives
  one object per row: header to cell, a cell being \<^verbatim>\<open>null\<close>, a string, a finite
  number, a boolean or a \<^verbatim>\<open>Date\<close> (here its local year, month index from 0 and
  day). The object is an association list in key order; \<open>map_of\<close> is \<^verbatim>\<open>row[name]\<close>.
\<close>

datatype cell = CNull | CStr string | CNum real | CBool bool | CDate int nat nat

type_synonym sheet_row = "(string \<times> cell) list"

text \<open>JavaScript truthiness of a cell, \<^verbatim>\<open>parseFloat(cell)\<close> and the number a
  money cell is read as, \<^verbatim>\<open>parseFloat(String(cell).replace(/[$,]/g, ''))\<close>. The
  string of a number reads back as that number and has neither \<^verbatim>\<open>$\<close> nor a comma;
  the strings of \<^verbatim>\<open>null\<close>, of a boolean and of a \<^verbatim>\<open>Date\<close> start with a letter.\<close>

fun truthy :: "cell \<Rightarrow> bool" where
  "truthy CNull = False"
| "truthy (CStr s) = (s \<noteq> [])"
| "truthy (CNum x) = (x \<noteq> 0)"
| "truthy (CBool b) = b"
| "truthy (CDate y m d) = True"

fun parseFloat_cell :: "cell \<Rightarrow> jsnum" where
  "parseFloat_cell (CStr s) = parseFloat s"
| "parseFloat_cell (CNum x) = Fin x"
| "parseFloat_cell _ = NaN"

fun parse_money :: "cell \<Rightarrow> jsnum" where
  "parse_money (CStr s) = parseFloat (filter (\<lambda>c. c \<noteq> CHR ''$'' \<and> c \<noteq> CHR '','') s)"
| "parse_money (CNum x) = Fin x"
| "parse_money _ = NaN"

text \<open>
  \<open>getColumnValue\<close>: the first of the names with a value that is neither
  \<^verbatim>\<open>undefined\<close> nor \<^verbatim>\<open>null\<close>; failing that, for the first name that some key equals
  up to case and surrounding white space, the value under the first such key;
  \<^verbatim>\<open>null\<close> otherwise.
\<close>

fun first_some :: "('a \<Rightarrow> 'b option) \<Rightarrow> 'a list \<Rightarrow> 'b option" where
  "first_some f [] = None"
| "first_some f (x # xs) = (case f x of Some y \<Rightarrow> Some y | None \<Rightarrow> first_some f xs)"

definition row_get :: "sheet_row \<Rightarrow> string \<Rightarrow> cell" where
  "row_get row key = (case map_of row key of None \<Rightarrow> CNull | Some c \<Rightarrow> c)"

definition getColumnValue :: "sheet_row \<Rightarrow> string list \<Rightarrow> cell" where
  "getColumnValue row possibleNames =
     (case first_some (\<lambda>name. case map_of row name of
                                None \<Rightarrow> None
                              | Some c \<Rightarrow> if c = CNull then None else Some c) possibleNames of
        Some c \<Rightarrow> c
      | None \<Rightarrow>
          (case first_some
                  (\<lambda>name. first_some
                     (\<lambda>key. if trim (lower key) = trim (lower name)
                             then Some (row_get row key) else None)
                     (map fst row))
                  possibleNames of
             Some c \<Rightarrow> c
           | None \<Rightarrow> CNull))"

subsection \<open>Dates, months and trade types\<close>

text \<open>
  What the model takes from the JavaScript runtime as given: today's date
  (\<^verbatim>\<open>new Date().toISOString().split('T')[0]\<close>), the local date of an Excel serial
  number as \<^verbatim>\<open>YYYY-MM-DD\<close>, and the strings of a number and of a \<^verbatim>\<open>Date\<close>.
\<close>

record js_env =
  today :: string
  serial_date :: "real \<Rightarrow> string"
  String_number :: "real \<Rightarrow> string"
  String_date :: "int \<Rightarrow> nat \<Rightarrow> nat \<Rightarrow> string"

fun js_String :: "js_env \<Rightarrow> cell \<Rightarrow> string" where
  "js_String env CNull = ''null''"
| "js_String env (CStr s) = s"
| "js_String env (CNum x) = String_number env x"
| "js_String env (CBool b) = (if b then ''true'' else ''false'')"
| "js_String env (CDate y m d) = String_date env y m d"

text \<open>A string of between \<open>lo\<close> and \<open>hi\<close> digits: \<^verbatim>\<open>\d{lo,hi}\<close>.\<close>

definition digits_between :: "nat \<Rightarrow> nat \<Rightarrow> string \<Rightarrow> bool" where
  "digits_between lo hi s = (lo \<le> length s \<and> length s \<le> hi \<and> list_all is_digit s)"

definition parseExcelDate :: "js_env \<Rightarrow> cell \<Rightarrow> string option" where
  "parseExcelDate env v =
     (if \<not> truthy v then None
      else case v of
        CDate y m d \<Rightarrow>
          Some (string_of_int y @ ''-'' @ pad2 (string_of_nat (m + 1)) @ ''-''
                @ pad2 (string_of_nat d))
      | CStr s \<Rightarrow>
          (let dateStr = trim s in
           case split_on CHR ''/'' dateStr of
             [mo, da, yr] \<Rightarrow>
               if digits_between 1 2 mo \<and> digits_between 1 2 da \<and> digits_between 4 4 yr
               then Some (yr @ ''-'' @ pad2 mo @ ''-'' @ pad2 da)
               else Some dateStr
           | _ \<Rightarrow>
               (case split_on CHR ''-'' dateStr of
                  [yr, mo, da] \<Rightarrow>
                    if digits_between 4 4 yr \<and> digits_between 1 2 mo \<and> digits_between 1 2 da
                    then Some (yr @ ''-'' @ pad2 mo @ ''-'' @ pad2 da)
                    else Some dateStr
                | _ \<Rightarrow> Some dateStr))
      | CNum x \<Rightarrow> Some (serial_date env x)
      | _ \<Rightarrow> None)"

definition monthNames :: "string list" where
  "monthNames = [''jan'', ''feb'', ''mar'', ''apr'', ''may'', ''jun'', ''jul'', ''aug'', ''sep'',
                 ''oct'', ''nov'', ''dec'']"

fun findIndex :: "('a \<Rightarrow> bool) \<Rightarrow> 'a list \<Rightarrow> nat option" where
  "findIndex P [] = None"
| "findIndex P (x # xs) = (if P x then Some 0 else map_option Suc (findIndex P xs))"

definition parseMonthValue :: "cell \<Rightarrow> string option" where
  "parseMonthValue v =
     (if \<not> truthy v then None
      else case v of
        CStr s \<Rightarrow>
          (let monthStr = trim s;
               name = takeWhile is_alpha monthStr;
               rest = dropWhile is_alpha monthStr
           in if name \<noteq> [] \<and> length rest = 3 \<and> take 1 rest = ''-''
                 \<and> digits_between 2 2 (drop 1 rest)
              then (case findIndex (\<lambda>m. startsWith (lower name) m) monthNames of
                      Some monthIndex \<Rightarrow>
                        Some (string_of_nat (digits_value (drop 1 rest) + 2000) @ ''-''
                              @ pad2 (string_of_nat (monthIndex + 1)))
                    | None \<Rightarrow> None)
              else if length monthStr = 7 \<and> digits_between 4 4 (take 4 monthStr)
                      \<and> take 1 (drop 4 monthStr) = ''-''
                      \<and> digits_between 2 2 (drop 5 monthStr)
              then Some monthStr
              else None)
      | CDate y m d \<Rightarrow> Some (string_of_int y @ ''-'' @ pad2 (string_of_nat (m + 1)))
      | _ \<Rightarrow> None)"

definition normalizeTradeType :: "cell \<Rightarrow> trade_type" where
  "normalizeTradeType ty =
     (case ty of
        CStr s \<Rightarrow>
          if lower (trim s) = ''sell'' then Sell
          else if lower (trim s) = ''income'' then Income
          else Buy
      | _ \<Rightarrow> Buy)"

subsection \<open>POST /upload/trades\<close>

text \<open>
  The values bound to the \<^verbatim>\<open>INSERT\<close> of one row. The statement is a parameter of
  the model, \<open>stmt_run\<close>: \<open>None\<close> when the row is stored, the message of the error
  when the store throws.
\<close>

record trade_params =
  tp_date :: string
  tp_token :: string
  tp_units :: jsnum
  tp_avg_price :: "jsnum option"
  tp_total :: "jsnum option"
  tp_type :: trade_type

record skip_reasons =
  noToken :: nat
  zeroUnits :: nat
  invalidUnits :: nat
  other :: nat

datatype skip_reason = No_token | Invalid_units | Zero_units_with_no_total

record skipped_row =
  sr_row :: nat
  sr_reason :: skip_reason

record upload_state =
  imported :: nat
  skipped :: nat
  errors :: "(nat \<times> string) list"
  skippedReasons :: skip_reasons
  skippedRows :: "skipped_row list"
  inserted :: "trade_params list"

definition initial_state :: upload_state where
  "initial_state =
     \<lparr>imported = 0, skipped = 0, errors = [],
      skippedReasons = \<lparr>noToken = 0, zeroUnits = 0, invalidUnits = 0, other = 0\<rparr>,
      skippedRows = [], inserted = []\<rparr>"

text \<open>Truthiness of a number that may be \<^verbatim>\<open>null\<close>, and \<^verbatim>\<open>Math.abs\<close>.\<close>

fun truthy_num :: "jsnum option \<Rightarrow> bool" where
  "truthy_num None = False"
| "truthy_num (Some (Fin x)) = (x \<noteq> 0)"
| "truthy_num (Some NaN) = False"
| "truthy_num (Some _) = True"

fun jabs :: "jsnum \<Rightarrow> jsnum" where
  "jabs (Fin x) = Fin \<bar>x\<bar>"
| "jabs NaN = NaN"
| "jabs _ = PInf"

text \<open>The number of a value known to be truthy.\<close>

definition toJs :: "jsnum option \<Rightarrow> jsnum" where
  "toJs v = (case v of None \<Rightarrow> Fin 0 | Some x \<Rightarrow> x)"

text \<open>
  \<^verbatim>\<open>if (skippedRows.length < 20) skippedRows.push(...)\<close>; of the pushed object the
  model keeps the row number and which of the three reasons it names.
\<close>

definition note_skipped :: "nat \<Rightarrow> skip_reason \<Rightarrow> skipped_row list \<Rightarrow> skipped_row list" where
  "note_skipped i reason rows =
     (if length rows < 20 then rows @ [\<lparr>sr_row = i + 2, sr_reason = reason\<rparr>] else rows)"

text \<open>The three \<^verbatim>\<open>continue\<close> branches and the \<^verbatim>\<open>try\<close>/\<^verbatim>\<open>catch\<close> around the insert.\<close>

definition skip_no_token :: "nat \<Rightarrow> upload_state \<Rightarrow> upload_state" where
  "skip_no_token i st =
     st\<lparr>skipped := skipped st + 1,
        skippedReasons := (skippedReasons st)\<lparr>noToken := noToken (skippedReasons st) + 1\<rparr>,
        skippedRows := note_skipped i No_token (skippedRows st)\<rparr>"

definition skip_invalid_units :: "nat \<Rightarrow> upload_state \<Rightarrow> upload_state" where
  "skip_invalid_units i st =
     st\<lparr>skipped := skipped st + 1,
        skippedReasons := (skippedReasons st)\<lparr>invalidUnits := invalidUnits (skippedReasons st) + 1\<rparr>,
        skippedRows := note_skipped i Invalid_units (skippedRows st)\<rparr>"

definition skip_zero_units :: "nat \<Rightarrow> upload_state \<Rightarrow> upload_state" where
  "skip_zero_units i st =
     st\<lparr>skipped := skipped st + 1,
        skippedReasons := (skippedReasons st)\<lparr>zeroUnits := zeroUnits (skippedReasons st) + 1\<rparr>,
        skippedRows := note_skipped i Zero_units_with_no_total (skippedRows st)\<rparr>"

definition insert_trade ::
  "(trade_params \<Rightarrow> string option) \<Rightarrow> nat \<Rightarrow> trade_params \<Rightarrow> upload_state \<Rightarrow> upload_state" where
  "insert_trade stmt_run i params st =
     (case stmt_run params of
        None \<Rightarrow> st\<lparr>imported := imported st + 1, inserted := inserted st @ [params]\<rparr>
      | Some message \<Rightarrow>
          st\<lparr>errors := errors st @ [(i + 2, message)], skipped := skipped st + 1\<rparr>)"

text \<open>
  The missing one of average price and total is computed from the other, and the
  values are bound: \<^verbatim>\<open>parsedDate || today\<close>, the trimmed uppercase token, absolute
  units and total.
\<close>

definition missing_avg_price :: "jsnum \<Rightarrow> jsnum option \<Rightarrow> jsnum option \<Rightarrow> jsnum option" where
  "missing_avg_price parsedUnits parsedAvgPrice parsedTotal =
     (if \<not> truthy_num parsedAvgPrice \<and> truthy_num parsedTotal \<and> truthy_num (Some parsedUnits)
      then Some (jabs (jdiv (toJs parsedTotal) parsedUnits))
      else parsedAvgPrice)"

definition missing_total :: "jsnum \<Rightarrow> jsnum option \<Rightarrow> jsnum option \<Rightarrow> jsnum option" where
  "missing_total parsedUnits parsedAvgPrice parsedTotal =
     (if \<not> truthy_num parsedAvgPrice \<and> truthy_num parsedTotal \<and> truthy_num (Some parsedUnits)
      then parsedTotal
      else if \<not> truthy_num parsedTotal \<and> truthy_num parsedAvgPrice \<and> truthy_num (Some parsedUnits)
      then Some (jmul (toJs parsedAvgPrice) parsedUnits)
      else parsedTotal)"

definition bound_params ::
  "js_env \<Rightarrow> cell \<Rightarrow> string option \<Rightarrow> jsnum \<Rightarrow> jsnum option \<Rightarrow> jsnum option \<Rightarrow> cell
   \<Rightarrow> trade_params" where
  "bound_params env token parsedDate parsedUnits parsedAvgPrice parsedTotal ty =
     \<lparr>tp_date = (case parsedDate of None \<Rightarrow> today env
                 | Some d \<Rightarrow> if d = [] then today env else d),
      tp_token = trim (upper (js_String env token)),
      tp_units = jabs parsedUnits,
      tp_avg_price = missing_avg_price parsedUnits parsedAvgPrice parsedTotal,
      tp_total =
        (if truthy_num (missing_total parsedUnits parsedAvgPrice parsedTotal)
         then Some (jabs (toJs (missing_total parsedUnits parsedAvgPrice parsedTotal)))
         else None),
      tp_type = normalizeTradeType ty\<rparr>"

definition trade_row_step ::
  "js_env \<Rightarrow> (trade_params \<Rightarrow> string option) \<Rightarrow> nat \<Rightarrow> sheet_row \<Rightarrow> upload_state \<Rightarrow> upload_state" where
  "trade_row_step env stmt_run i row st =
     (let token = getColumnValue row [''Token'', ''token'', ''TOKEN'', ''SYMBOL'', ''Symbol''];
          dateValue = getColumnValue row [''Date'', ''date'', ''DATE''];
          units = getColumnValue row
                    [''Units'', ''units'', ''UNITS'', ''Quantity'', ''quantity'', ''QTY'', ''Qty''];
          avgPrice = getColumnValue row
                       [''Avg Price'', ''Avg. Price'', ''avg_price'', ''AVG PRICE'', ''Price'',
                        ''price'', ''PRICE'', ''AvgPrice''];
          total = getColumnValue row
                    [''Total Bot'', ''Total'', ''total'', ''TOTAL BOT'', ''TOTAL'', ''Amount'',
                     ''amount'', ''TotalBot''];
          ty = getColumnValue row
                 [''Buy/Sell/Income'', ''Type'', ''type'', ''TYPE'', ''Side'', ''side'', ''Action'',
                  ''action''];
          parsedDate = parseExcelDate env dateValue;
          parsedUnits = parseFloat_cell units;
          parsedAvgPrice = (if truthy avgPrice then Some (parse_money avgPrice) else None);
          parsedTotal = (if truthy total then Some (parse_money total) else None)
      in if (if truthy token then trim (js_String env token) = [] else True)
         then skip_no_token i st
         else if isNaN parsedUnits then skip_invalid_units i st
         else if parsedUnits = Fin 0
                 \<and> (if truthy_num parsedTotal then parsedTotal = Some (Fin 0) else True)
         then skip_zero_units i st
         else insert_trade stmt_run i
                (bound_params env token parsedDate parsedUnits parsedAvgPrice parsedTotal ty) st)"

text \<open>The loop \<^verbatim>\<open>for (let i = 0; i < rows.length; i++)\<close>.\<close>

fun upload_rows ::
  "(nat \<Rightarrow> 'r \<Rightarrow> 's \<Rightarrow> 's) \<Rightarrow> nat \<Rightarrow> 'r list \<Rightarrow> 's \<Rightarrow> 's" where
  "upload_rows step i [] st = st"
| "upload_rows step i (row # rows) st = upload_rows step (Suc i) rows (step i row st)"

record upload_response =
  r_imported :: nat
  r_skipped :: nat
  r_total :: nat
  r_skippedReasons :: skip_reasons
  r_skippedRows :: "skipped_row list"
  r_errors :: "(nat \<times> string) list"
  r_inserted :: "trade_params list"

text \<open>
  The handler on the parsed rows: status 400 for an empty sheet, the counts otherwise.
  \<open>r_inserted\<close> is the effect on the store, the rest is the JSON of the answer.
\<close>

definition upload_trades ::
  "js_env \<Rightarrow> (trade_params \<Rightarrow> string option) \<Rightarrow> sheet_row list \<Rightarrow> string + upload_response" where
  "upload_trades env stmt_run rawData =
     (if length rawData = 0 then Inl ''No data found in the file''
      else
        (let st = upload_rows (trade_row_step env stmt_run) 0 rawData initial_state
         in Inr \<lparr>r_imported = imported st, r_skipped = skipped st, r_total = length rawData,
                 r_skippedReasons = skippedReasons st,
                 r_skippedRows = take 20 (skippedRows st),
                 r_errors = take 10 (errors st),
                 r_inserted = inserted st\<rparr>))"

text \<open>
  Two stores: one that takes every row, and one whose every insert throws because
  another connection holds the write lock.
\<close>

definition store_ok :: "'p \<Rightarrow> string option" where
  "store_ok params = None"

definition store_locked :: "'p \<Rightarrow> string option" where
  "store_locked params = Some ''database is locked''"

text \<open>A well-formed row: one BTC bought for 100.\<close>

definition btc_row :: sheet_row where
  "btc_row = [(''Token'', CStr ''BTC''), (''Units'', CNum 1), (''Total'', CNum 100)]"

text \<open>
  The counters a row moves: imported plus skipped; the four reason counters plus the
  recorded errors plus imported; and the reason counter \<open>other\<close>.
\<close>

definition reasons_total :: "skip_reasons \<Rightarrow> nat" where
  "reasons_total r = noToken r + zeroUnits r + invalidUnits r + other r"

definition counted :: "upload_state \<Rightarrow> nat \<times> nat \<times> nat" where
  "counted st =
     (imported st + skipped st,
      reasons_total (skippedReasons st) + length (errors st) + imported st,
      other (skippedReasons st))"

definition bump :: "nat \<times> nat \<times> nat \<Rightarrow> nat \<times> nat \<times> nat" where
  "bump c = (case c of (a, b, d) \<Rightarrow> (Suc a, Suc b, d))"

section \<open>Monthly performance upserts\<close>

subsection \<open>The two statements\<close>

text \<open>
  \<^verbatim>\<open>INSERT INTO perf_tracker (...) VALUES (...) ON CONFLICT(month) DO UPDATE SET ...\<close>
  on a table whose months are unique. A new row takes the next id; a conflicting row
  keeps its id and takes the columns listed after \<^verbatim>\<open>SET\<close> from the values of
  the statement.
\<close>

definition next_id :: "'v perf_row list \<Rightarrow> nat" where
  "next_id rows = Suc (fold max (map p_id rows) 0)"

text \<open>
  The statement of \<^verbatim>\<open>POST /perf-tracker\<close>: all fourteen columns are inserted, and
  all fourteen are listed after \<^verbatim>\<open>SET\<close>.
\<close>

definition upsert_all_columns :: "'v perf_row \<Rightarrow> 'v perf_row list \<Rightarrow> 'v perf_row list" where
  "upsert_all_columns new rows =
     (if p_month new \<in> set (map p_month rows)
      then map (\<lambda>r. if p_month r = p_month new then new\<lparr>p_id := p_id r\<rparr> else r) rows
      else rows @ [new\<lparr>p_id := next_id rows\<rparr>])"

text \<open>
  The statement of \<^verbatim>\<open>POST /upload/perf-tracker\<close>: eleven columns are inserted and
  listed after \<^verbatim>\<open>SET\<close>; the three expense columns are not, so a new row gets their
  \<^verbatim>\<open>DEFAULT 0\<close> (\<open>dflt\<close>) and a conflicting row keeps what it has.
\<close>

definition set_return_columns :: "'v perf_row \<Rightarrow> 'v perf_row \<Rightarrow> 'v perf_row" where
  "set_return_columns new r =
     r\<lparr>gp_subs := gp_subs new, lp_subs := lp_subs new, initial_value := initial_value new,
       ending_value := ending_value new, motus_return := motus_return new,
       btc_return := btc_return new, eth_return := eth_return new,
       cci30_return := cci30_return new, sp_ex_mega_return := sp_ex_mega_return new,
       spx_return := spx_return new, qqq_return := qqq_return new\<rparr>"

definition upsert_return_columns ::
  "'v \<Rightarrow> 'v perf_row \<Rightarrow> 'v perf_row list \<Rightarrow> 'v perf_row list" where
  "upsert_return_columns dflt new rows =
     (if p_month new \<in> set (map p_month rows)
      then map (\<lambda>r. if p_month r = p_month new then set_return_columns new r else r) rows
      else rows @ [new\<lparr>p_id := next_id rows, fund_expenses := dflt, mgmt_fees := dflt,
                        setup_costs := dflt\<rparr>])"

subsection \<open>POST /perf-tracker\<close>

text \<open>
  The body of the request: the month and fourteen numbers, each a JSON number or
  missing. Every number is bound as \<^verbatim>\<open>value || 0\<close>.
\<close>

definition bound_body :: "real option perf_row \<Rightarrow> real option perf_row" where
  "bound_body body =
     \<lparr>p_id = 0, p_month = p_month body,
      gp_subs = Some (or0 (gp_subs body)), lp_subs = Some (or0 (lp_subs body)),
      initial_value = Some (or0 (initial_value body)),
      ending_value = Some (or0 (ending_value body)),
      motus_return = Some (or0 (motus_return body)),
      btc_return = Some (or0 (btc_return body)), eth_return = Some (or0 (eth_return body)),
      cci30_return = Some (or0 (cci30_return body)),
      sp_ex_mega_return = Some (or0 (sp_ex_mega_return body)),
      spx_return = Some (or0 (spx_return body)), qqq_return = Some (or0 (qqq_return body)),
      fund_expenses = Some (or0 (fund_expenses body)),
      mgmt_fees = Some (or0 (mgmt_fees body)),
      setup_costs = Some (or0 (setup_costs body))\<rparr>"

definition post_perf_tracker ::
  "real option perf_row \<Rightarrow> real option perf_row list \<Rightarrow> real option perf_row list" where
  "post_perf_tracker body rows = upsert_all_columns (bound_body body) rows"

subsection \<open>POST /upload/perf-tracker\<close>

text \<open>
  \<^verbatim>\<open>parseFloat(getColumnValue(row, ...) || 0)\<close>, then \<^verbatim>\<open>isNaN(x) ? 0 : x\<close>. The
  values bound are JavaScript numbers, so the table of this handler holds those. The
  statement binds no expenses: the three expense fields of \<open>perf_params\<close> are
  placeholders that neither branch of \<open>upsert_return_columns\<close> reads.
\<close>

definition column_number :: "sheet_row \<Rightarrow> string list \<Rightarrow> jsnum option" where
  "column_number row names =
     (let v = getColumnValue row names;
          x = (if truthy v then parseFloat_cell v else Fin 0)
      in Some (if isNaN x then Fin 0 else x))"

definition perf_params :: "string \<Rightarrow> sheet_row \<Rightarrow> jsnum option perf_row" where
  "perf_params parsedMonth row =
     \<lparr>p_id = 0, p_month = parsedMonth,
      gp_subs = column_number row [''GP SUBS'', ''GP Subs'', ''gp_subs''],
      lp_subs = column_number row [''LP SUBS'', ''LP Subs'', ''lp_subs''],
      initial_value = column_number row [''INITIAL VALUE'', ''Initial Value'', ''initial_value''],
      ending_value = column_number row
        [''END/LIVE VALUE'', ''END VALUE'', ''ENDING VALUE'', ''Ending Value'', ''ending_value'',
         ''End/Live Value''],
      motus_return = column_number row [''MOTUS'', ''Motus'', ''motus_return'', ''Motus Return''],
      btc_return = column_number row [''BTC'', ''Btc'', ''btc_return'', ''BTC Return''],
      eth_return = column_number row [''ETH'', ''Eth'', ''eth_return'', ''ETH Return''],
      cci30_return = column_number row [''CCI30'', ''Cci30'', ''cci30_return'', ''CCI30 Return''],
      sp_ex_mega_return = column_number row
        [''S&PexMEGA'', ''S&P ex MEGA'', ''sp_ex_mega_return'', ''S&PexMega'', ''SPexMEGA''],
      spx_return = column_number row [''SPX'', ''Spx'', ''spx_return'', ''SPX Return''],
      qqq_return = column_number row [''QQQ'', ''Qqq'', ''qqq_return'', ''QQQ Return''],
      fund_expenses = None, mgmt_fees = None, setup_costs = None\<rparr>"

text \<open>
  The state of the loop: the counters, the messages of the rows that threw, and the
  table. \<open>stmt_run\<close> says whether the store throws on the values of a row.
\<close>

record perf_upload_state =
  pu_imported :: nat
  pu_skipped :: nat
  pu_errors :: "(nat \<times> string) list"
  pu_table :: "jsnum option perf_row list"

definition perf_row_step ::
  "(jsnum option perf_row \<Rightarrow> string option) \<Rightarrow> nat \<Rightarrow> sheet_row \<Rightarrow> perf_upload_state
   \<Rightarrow> perf_upload_state" where
  "perf_row_step stmt_run i row st =
     (case parseMonthValue (getColumnValue row [''MONTH'', ''Month'', ''month'']) of
        None \<Rightarrow> st\<lparr>pu_skipped := pu_skipped st + 1\<rparr>
      | Some parsedMonth \<Rightarrow>
          if parsedMonth = [] then st\<lparr>pu_skipped := pu_skipped st + 1\<rparr>
          else
            (case stmt_run (perf_params parsedMonth row) of
               None \<Rightarrow>
                 st\<lparr>pu_imported := pu_imported st + 1,
                    pu_table := upsert_return_columns (Some (Fin 0))
                                  (perf_params parsedMonth row) (pu_table st)\<rparr>
             | Some message \<Rightarrow>
                 st\<lparr>pu_errors := pu_errors st @ [(i + 2, message)],
                    pu_skipped := pu_skipped st + 1\<rparr>))"

definition upload_perf_tracker ::
  "(jsnum option perf_row \<Rightarrow> string option) \<Rightarrow> sheet_row list \<Rightarrow> jsnum option perf_row list
   \<Rightarrow> string + perf_upload_state" where
  "upload_perf_tracker stmt_run rawData table =
     (if length rawData = 0 then Inl ''No data found in the file''
      else Inr (upload_rows (perf_row_step stmt_run) 0 rawData
                  \<lparr>pu_imported = 0, pu_skipped = 0, pu_errors = [], pu_table = table\<rparr>))"

text \<open>
  Sample data: the stored record of January 2024 with fund expenses of 500, and a sheet
  row for the same month that carries a column of fund expenses as well.
\<close>

definition january_stored :: "jsnum option perf_row" where
  "january_stored =
     \<lparr>p_id = 7, p_month = ''2024-01'', gp_subs = Some (Fin 100), lp_subs = Some (Fin 200),
      initial_value = Some (Fin 300), ending_value = Some (Fin 400),
      motus_return = Some (Fin 1), btc_return = Some (Fin 2), eth_return = Some (Fin 3),
      cci30_return = Some (Fin 4), sp_ex_mega_return = Some (Fin 5), spx_return = Some (Fin 6),
      qqq_return = Some (Fin 7), fund_expenses = Some (Fin 500), mgmt_fees = Some (Fin 50),
      setup_costs = Some (Fin 5)\<rparr>"

definition january_row :: sheet_row where
  "january_row =
     [(''MONTH'', CStr ''2024-01''), (''GP SUBS'', CNum 1000), (''END/LIVE VALUE'', CNum 4000),
      (''fund_expenses'', CNum 7)]"

text \<open>
  Two records agree on the eleven columns of subscriptions, values and returns; two
  records agree on the three expense columns.
\<close>

definition same_returns :: "'v perf_row \<Rightarrow> 'v perf_row \<Rightarrow> bool" where
  "same_returns r new =
     (gp_subs r = gp_subs new \<and> lp_subs r = lp_subs new \<and> initial_value r = initial_value new
      \<and> ending_value r = ending_value new \<and> motus_return r = motus_return new
      \<and> btc_return r = btc_return new \<and> eth_return r = eth_return new
      \<and> cci30_return r = cci30_return new \<and> sp_ex_mega_return r = sp_ex_mega_return new
      \<and> spx_return r = spx_return new \<and> qqq_return r = qqq_return new)"

definition same_expenses :: "'v perf_row \<Rightarrow> 'v perf_row \<Rightarrow> bool" where
  "same_expenses r new =
     (fund_expenses r = fund_expenses new \<and> mgmt_fees r = mgmt_fees new
      \<and> setup_costs r = setup_costs new)"

text \<open>
  For the manual endpoint: January 2024 as stored, with fund expenses of 500, and a
  body for the same month that leaves gp_subs out and sends fund expenses of 7.
\<close>

definition january_real :: "real option perf_row" where
  "january_real = (perf_record 7 ''2024-01'' 400)\<lparr>fund_expenses := Some 500\<rparr>"

definition january_body :: "real option perf_row" where
  "january_body = (perf_record 0 ''2024-01'' 4000)\<lparr>gp_subs := None, fund_expenses := Some 7\<rparr>"

section \<open>Properties of the aggregates\<close>

lemma or0_num0: "or0 v = num0 v"
  by (cases v) (simp_all add: or0_def num0_def)

lemma num0_Some: "num0 (Some x) = x"
  by (simp add: num0_def)

lemma sum_list_map_filter_id: "sum_list (List.map_filter (\<lambda>v. v) vs) = sum_list (map num0 vs)"
  by (induction vs) (auto simp: List.map_filter_simps num0_def split: option.splits)

lemma sql_sum_num0: "num0 (coalesce0 (sql_sum vs)) = sum_list (map num0 vs)"
proof -
  have "num0 (coalesce0 (sql_sum vs)) = sum_list (List.map_filter (\<lambda>v. v) vs)"
    by (cases "List.map_filter (\<lambda>v. v) vs") (simp_all add: sql_sum_def coalesce0_def num0_def)
  then show ?thesis
    by (simp add: sum_list_map_filter_id)
qed

lemma num0_sql_sum: "num0 (sql_sum vs) = sum_list (map num0 vs)"
proof -
  have "num0 (sql_sum vs) = sum_list (List.map_filter (\<lambda>v. v) vs)"
    by (cases "List.map_filter (\<lambda>v. v) vs") (simp_all add: sql_sum_def num0_def)
  then show ?thesis
    by (simp add: sum_list_map_filter_id)
qed

lemma num0_cost_case: "num0 (cost_case t) = signed_total t"
  by (cases "t_type t"; cases "t_total t") (simp_all add: cost_case_def signed_total_def num0_def)

lemma subscriptions_total_eq: "or0 (subscriptions_total is) = spec_total_subscriptions is"
  by (simp add: or0_num0 subscriptions_total_def sql_sum_num0 spec_total_subscriptions_def
      comp_def num0_Some)

lemma costBasis_total_eq: "or0 (costBasis_total ts) = spec_total_cost_basis ts"
  by (simp add: or0_num0 costBasis_total_def sql_sum_num0 spec_total_cost_basis_def
      comp_def num0_cost_case)

lemma exitsCostBasis_total_eq: "or0 (exitsCostBasis_total es) = spec_exits_cost_basis es"
  by (simp add: or0_num0 exitsCostBasis_total_def sql_sum_num0 spec_exits_cost_basis_def
      comp_def num0_Some)

lemma totalExpenses_eq: "totalExpenses ps = spec_total_expenses ps"
proof -
  have "sum_list (map (\<lambda>p. num0 (fund_expenses p) + num0 (mgmt_fees p) + num0 (setup_costs p)) ps)
      = sum_list (map (\<lambda>p. num0 (fund_expenses p)) ps)
        + sum_list (map (\<lambda>p. num0 (mgmt_fees p)) ps)
        + sum_list (map (\<lambda>p. num0 (setup_costs p)) ps)"
    by (induction ps) simp_all
  then show ?thesis
    by (simp add: totalExpenses_def spec_total_expenses_def or0_num0 sql_sum_num0 comp_def)
qed

text \<open>
  C1. For every database state, the cash-balance endpoint returns
  \<open>usdc_balance = total_subscriptions - total_cost_basis - total_expenses - exits_cost_basis\<close>,
  where the four terms are the signed sum of all investor amounts, the signed sum
  (Buy: +total, Sell: -total, Income: 0) over the trades whose uppercased token is not
  USDC, the sum of fund_expenses + mgmt_fees + setup_costs over all monthly
  performance records, and the sum of all exit cost_basis values.
\<close>

theorem usdc_balance_formula:
  "usdc_balance (portfolio_usdc db)
     = spec_total_subscriptions (investors db) - spec_total_cost_basis (trades db)
       - spec_total_expenses (perf_tracker db) - spec_exits_cost_basis (exits db)
   \<and> total_subscriptions (portfolio_usdc db) = spec_total_subscriptions (investors db)
   \<and> u_cost_basis (portfolio_usdc db) = spec_total_cost_basis (trades db)
   \<and> total_expenses (portfolio_usdc db) = spec_total_expenses (perf_tracker db)
   \<and> exits_cost_basis (portfolio_usdc db) = spec_exits_cost_basis (exits db)"
  by (simp add: portfolio_usdc_def Let_def subscriptions_total_eq costBasis_total_eq
      exitsCostBasis_total_eq totalExpenses_eq)

subsection \<open>Holdings and the cost basis of the cash residual\<close>

lemma sum_list_by_key:
  fixes f :: "'a \<Rightarrow> real"
  assumes "finite K" "key ` set xs \<subseteq> K"
  shows "(\<Sum>k\<in>K. sum_list (map f (filter (\<lambda>x. key x = k) xs))) = sum_list (map f xs)"
  using assms(2)
proof (induction xs)
  case Nil
  then show ?case by simp
next
  case (Cons x xs)
  have "(\<Sum>k\<in>K. sum_list (map f (filter (\<lambda>y. key y = k) (x # xs))))
      = (\<Sum>k\<in>K. (if key x = k then f x else 0) + sum_list (map f (filter (\<lambda>y. key y = k) xs)))"
    by (rule sum.cong) auto
  also have "\<dots> = (\<Sum>k\<in>K. if key x = k then f x else 0) + (\<Sum>k\<in>K. sum_list (map f (filter (\<lambda>y. key y = k) xs)))"
    by (simp add: sum.distrib)
  also have "(\<Sum>k\<in>K. if key x = k then f x else 0) = f x"
    using Cons.prems assms(1) by (simp add: sum.delta')
  finally show ?case using Cons by simp
qed

lemma groups_sum:
  fixes c :: "trade \<Rightarrow> real"
  shows "sum_list (map (\<lambda>k. sum_list (map c (group_of k ts))) (filter P (remdups (map t_token ts))))
       = sum_list (map c (filter (\<lambda>t. P (t_token t)) ts))"
proof -
  let ?K = "set (filter P (remdups (map t_token ts)))"
  let ?xs = "filter (\<lambda>t. P (t_token t)) ts"
  have "sum_list (map (\<lambda>k. sum_list (map c (group_of k ts))) (filter P (remdups (map t_token ts))))
      = (\<Sum>k\<in>?K. sum_list (map c (group_of k ts)))"
    by (rule sum_list_distinct_conv_sum_set) simp
  also have "\<dots> = (\<Sum>k\<in>?K. sum_list (map c (filter (\<lambda>t. t_token t = k) ?xs)))"
  proof (rule sum.cong)
    fix k assume "k \<in> ?K"
    then have "P k" by simp
    then have "group_of k ts = filter (\<lambda>t. t_token t = k) ?xs"
      by (auto simp: group_of_def intro: filter_cong)
    then show "sum_list (map c (group_of k ts)) = sum_list (map c (filter (\<lambda>t. t_token t = k) ?xs))"
      by simp
  qed simp
  also have "\<dots> = sum_list (map c ?xs)"
    by (rule sum_list_by_key) auto
  finally show ?thesis .
qed

lemma sum_list_mset_cong:
  fixes g :: "'a \<Rightarrow> real"
  shows "mset xs = mset ys \<Longrightarrow> sum_list (map g xs) = sum_list (map g ys)"
  by (metis mset_map sum_mset_sum_list)


lemma sum_list_filter_split2:
  fixes g :: "'a \<Rightarrow> real"
  shows "sum_list (map g (filter (\<lambda>x. Q x \<and> P x) xs)) + sum_list (map g (filter (\<lambda>x. Q x \<and> \<not> P x) xs))
       = sum_list (map g (filter Q xs))"
  by (induction xs) simp_all

lemma foldl_plus:
  fixes g :: "'a \<Rightarrow> real"
  shows "foldl (\<lambda>s h. s + g h) a xs = a + sum_list (map g xs)"
  by (induction xs arbitrary: a) simp_all

lemma groups_cost_basis_sum: "holdings_cost_basis_sum (portfolio_groups ts) = spec_total_cost_basis ts"
proof -
  have "holdings_cost_basis_sum (portfolio_groups ts)
      = sum_list (map (\<lambda>k. sum_list (map signed_total (group_of k ts)))
          (filter (\<lambda>k. upper k \<noteq> ''USDC'') (remdups (map t_token ts))))"
    by (simp add: holdings_cost_basis_sum_def portfolio_groups_def filter_map comp_def
        num0_sql_sum num0_cost_case)
  then show ?thesis
    by (simp add: groups_sum spec_total_cost_basis_def)
qed

lemma mset_portfolio: "mset (portfolio ts) = filter_mset having_units (mset (portfolio_groups ts))"
  by (simp add: portfolio_def order_by_cost_basis_desc_def)

lemma holdings_sum_split:
  "holdings_cost_basis_sum (portfolio ts) + holdings_cost_basis_sum (dust_groups ts)
     = holdings_cost_basis_sum (portfolio_groups ts)"
proof -
  let ?U = "\<lambda>h. upper (h_token h) \<noteq> ''USDC''"
  let ?g = "\<lambda>h. num0 (cost_basis h)"
  have "mset (filter ?U (portfolio ts)) = mset (filter having_units (filter ?U (portfolio_groups ts)))"
    by (simp add: mset_portfolio filter_filter_mset conj_commute)
  then have "sum_list (map ?g (filter ?U (portfolio ts)))
      = sum_list (map ?g (filter having_units (filter ?U (portfolio_groups ts))))"
    by (rule sum_list_mset_cong)
  moreover have "filter ?U (dust_groups ts) = filter (\<lambda>h. \<not> having_units h) (filter ?U (portfolio_groups ts))"
    by (simp add: dust_groups_def conj_commute)
  ultimately show ?thesis
    by (simp add: holdings_cost_basis_sum_def sum_list_filter_split2)
qed

lemma checker_total: "checker_totalCostBasis ts = spec_total_cost_basis ts"
proof -
  let ?U = "\<lambda>k. upper k \<noteq> ''USDC''"
  let ?mk = "\<lambda>k. \<lparr>c_token = k,
                  buy_units = sql_sum (map (case_units_of Buy) (group_of k ts)),
                  sell_units = sql_sum (map (case_units_of Sell) (group_of k ts)),
                  income_units = sql_sum (map (case_units_of Income) (group_of k ts)),
                  net_units = sql_sum (map units_case (group_of k ts)),
                  buy_total = sql_sum (map (case_total_of Buy) (group_of k ts)),
                  sell_total = sql_sum (map (case_total_of Sell) (group_of k ts)),
                  c_cost_basis = sql_sum (map cost_case (group_of k ts)),
                  trade_count = length (group_of k ts)\<rparr>"
  let ?rows = "map ?mk (remdups (map t_token ts))"
  have "mset (filter (\<lambda>h. ?U (c_token h)) (checker_holdings ts)) = mset (filter (\<lambda>h. ?U (c_token h)) ?rows)"
    by (simp add: checker_holdings_def)
  then have "sum_list (map (\<lambda>h. or0 (c_cost_basis h)) (filter (\<lambda>h. ?U (c_token h)) (checker_holdings ts)))
      = sum_list (map (\<lambda>h. or0 (c_cost_basis h)) (filter (\<lambda>h. ?U (c_token h)) ?rows))"
    by (rule sum_list_mset_cong)
  also have "\<dots> = sum_list (map (\<lambda>k. sum_list (map signed_total (group_of k ts)))
          (filter ?U (remdups (map t_token ts))))"
    by (simp add: filter_map comp_def or0_num0 num0_sql_sum num0_cost_case)
  also have "\<dots> = spec_total_cost_basis ts"
    by (simp add: groups_sum spec_total_cost_basis_def)
  finally show ?thesis
    by (simp add: checker_totalCostBasis_def foldl_plus)
qed

text \<open>
  C2 (amended). For every set of trades, the sum of the cost_basis values of the
  holdings endpoint over the tokens other than USDC, plus the cost_basis of the
  non-USDC tokens its dust filter drops, equals the total_cost_basis term of the cash
  residual; the checker's total over its unfiltered breakdown equals that term too.
\<close>

theorem cost_basis_consistency:
  "holdings_cost_basis_sum (portfolio (trades db)) + holdings_cost_basis_sum (dust_groups (trades db))
     = u_cost_basis (portfolio_usdc db)
   \<and> checker_totalCostBasis (trades db) = u_cost_basis (portfolio_usdc db)"
  by (simp add: holdings_sum_split groups_cost_basis_sum checker_total portfolio_usdc_def Let_def
      costBasis_total_eq)

lemma portfolio_exited: "portfolio exited_ledger = []"
  by (simp add: exited_ledger_def one_trade_def portfolio_def portfolio_groups_def group_of_def
      sql_sum_def units_case_def cost_case_def having_units_def order_by_cost_basis_desc_def
      List.map_filter_simps)

text \<open>
  C2 as stated fails on a position that was sold out at a profit: the holdings
  endpoint drops the token, the cash residual still counts its cost basis of -500.
\<close>

theorem cost_basis_consistency_counterexample:
  "holdings_cost_basis_sum (portfolio exited_ledger) = 0
   \<and> u_cost_basis (portfolio_usdc \<lparr>trades = exited_ledger, investors = [], perf_tracker = [], exits = []\<rparr>) = - 500
   \<and> holdings_cost_basis_sum (portfolio exited_ledger)
     \<noteq> u_cost_basis (portfolio_usdc \<lparr>trades = exited_ledger, investors = [], perf_tracker = [], exits = []\<rparr>)"
proof -
  have a: "holdings_cost_basis_sum (portfolio exited_ledger) = 0"
    by (simp add: portfolio_exited holdings_cost_basis_sum_def)
  have b: "u_cost_basis (portfolio_usdc \<lparr>trades = exited_ledger, investors = [], perf_tracker = [], exits = []\<rparr>) = - 500"
    by (simp add: portfolio_usdc_def Let_def costBasis_total_eq spec_total_cost_basis_def
        exited_ledger_def one_trade_def upper_def upper_char_def signed_total_def num0_def)
  show ?thesis using a b by simp
qed

lemma set_portfolio: "set (portfolio ts) = {h. h \<in> set (portfolio_groups ts) \<and> having_units h}"
  by (auto simp: portfolio_def order_by_cost_basis_desc_def)

lemma having_units_abs: "having_units h = (1 / 10000 < \<bar>num0 (total_units h)\<bar>)"
  by (cases "total_units h") (auto simp: having_units_def num0_def)

lemma portfolio_one_trade:
  "portfolio [one_trade k Buy u tot]
     = (if 1 / 10000 < \<bar>u\<bar> then [\<lparr>h_token = k, total_units = Some u, cost_basis = tot\<rparr>] else [])"
  by (cases tot)
    (auto simp: portfolio_def portfolio_groups_def group_of_def one_trade_def sql_sum_def
      units_case_def cost_case_def having_units_def order_by_cost_basis_desc_def
      List.map_filter_simps)

text \<open>
  C6 (amended). For every set of trades, the holdings endpoint excludes exactly the
  tokens whose absolute net total_units is at most the dust threshold 1e-4, a token at
  exactly 1e-4 included among the excluded; in particular a token with total_units
  0.00005 is excluded and one with 0.0002 is returned.
\<close>

theorem dust_filter:
  "set (portfolio ts)
     = {h. h \<in> set (portfolio_groups ts) \<and> 1 / 10000 < \<bar>num0 (total_units h)\<bar>}
   \<and> portfolio [one_trade k Buy (5 / 100000) tot] = []
   \<and> portfolio [one_trade k Buy (2 / 10000) tot]
       = [\<lparr>h_token = k, total_units = Some (2 / 10000), cost_basis = tot\<rparr>]"
  by (simp add: set_portfolio having_units_abs portfolio_one_trade)

text \<open>
  C6 as stated fails at the threshold: a token with net units of exactly 1e-4 is not
  below the threshold, and the endpoint excludes it.
\<close>

theorem dust_filter_counterexample:
  "portfolio_groups dust_boundary_ledger
     = [\<lparr>h_token = ''ABC'', total_units = Some (1 / 10000), cost_basis = None\<rparr>]
   \<and> \<not> spec_is_dust \<lparr>h_token = ''ABC'', total_units = Some (1 / 10000), cost_basis = None\<rparr>
   \<and> portfolio dust_boundary_ledger = []"
proof -
  have "portfolio_groups dust_boundary_ledger
     = [\<lparr>h_token = ''ABC'', total_units = Some (1 / 10000), cost_basis = None\<rparr>]"
    by (simp add: dust_boundary_ledger_def portfolio_groups_def group_of_def one_trade_def
        sql_sum_def units_case_def cost_case_def List.map_filter_simps)
  moreover have "\<not> spec_is_dust \<lparr>h_token = ''ABC'', total_units = Some (1 / 10000), cost_basis = None\<rparr>"
    by (simp add: spec_is_dust_def num0_def)
  moreover have "portfolio dust_boundary_ledger = []"
    by (simp add: dust_boundary_ledger_def portfolio_one_trade)
  ultimately show ?thesis by simp
qed

subsection \<open>The price resolver\<close>

lemma merge_step_other: "k \<noteq> mp_token mp \<Longrightarrow> merge_step m mp k = m k"
  by (simp add: merge_step_def)

lemma foldl_merge_absent: "k \<notin> mp_token ` set mps \<Longrightarrow> foldl merge_step m mps k = m k"
  by (induction mps arbitrary: m) (auto simp: merge_step_other)

lemma merge_step_priced: "m k = Some q \<Longrightarrow> price q \<noteq> 0 \<Longrightarrow> merge_step m mp k = Some q"
  by (auto simp: merge_step_def no_price_def)

lemma foldl_merge_priced:
  "m k = Some q \<Longrightarrow> price q \<noteq> 0 \<Longrightarrow> foldl merge_step m mps k = Some q"
  by (induction mps arbitrary: m) (simp_all add: merge_step_priced)

lemma foldl_merge_manual:
  "distinct (map mp_token mps) \<Longrightarrow> mp \<in> set mps \<Longrightarrow> no_price m (mp_token mp)
   \<Longrightarrow> foldl merge_step m mps (mp_token mp) = Some (manual_quote mp)"
proof (induction mps arbitrary: m)
  case Nil
  then show ?case by simp
next
  case (Cons x xs)
  show ?case
  proof (cases "x = mp")
    case True
    with Cons.prems have "mp_token mp \<notin> mp_token ` set xs" by auto
    then have "foldl merge_step (merge_step m mp) xs (mp_token mp) = merge_step m mp (mp_token mp)"
      by (rule foldl_merge_absent)
    moreover from Cons.prems(3) have "merge_step m mp (mp_token mp) = Some (manual_quote mp)"
      by (simp add: merge_step_def)
    ultimately show ?thesis using True by simp
  next
    case False
    with Cons.prems have in_xs: "mp \<in> set xs" and ne: "mp_token x \<noteq> mp_token mp" by auto
    from ne Cons.prems(3) have "no_price (merge_step m x) (mp_token mp)"
      by (simp add: no_price_def merge_step_other)
    with Cons.IH [of "merge_step m x"] Cons.prems(1) in_xs show ?thesis by simp
  qed
qed

text \<open>
  C5 (amended). In the price merge a manual override is substituted only for tokens
  that have no live quote or whose live quote has no price (price 0): for every token
  whose live quote has a nonzero price the live quote is used unchanged; for every token
  with a manual override (tokens are unique among the overrides) that is absent from
  the live quotes or has a live price of 0, the resolved quote carries the manual price
  with isManual = true and all four percent-change fields null; a token without an
  override keeps what the live quotes say.
\<close>

theorem merged_prices:
  "(prices k = Some q \<and> price q \<noteq> 0 \<longrightarrow> mergedPrices prices manualPrices k = Some q)
   \<and> (distinct (map mp_token manualPrices) \<and> mp \<in> set manualPrices
        \<and> (prices (mp_token mp) = None \<or> (\<exists>q0. prices (mp_token mp) = Some q0 \<and> price q0 = 0))
      \<longrightarrow> (\<exists>r. mergedPrices prices manualPrices (mp_token mp) = Some r
             \<and> price r = mp_price mp \<and> isManual r
             \<and> percent_change_24h r = None \<and> percent_change_7d r = None
             \<and> percent_change_30d r = None \<and> percent_change_60d r = None))
   \<and> (k \<notin> mp_token ` set manualPrices \<longrightarrow> mergedPrices prices manualPrices k = prices k)"
proof (intro conjI impI)
  assume "prices k = Some q \<and> price q \<noteq> 0"
  then show "mergedPrices prices manualPrices k = Some q"
    by (simp add: mergedPrices_def foldl_merge_priced)
next
  assume a: "distinct (map mp_token manualPrices) \<and> mp \<in> set manualPrices
        \<and> (prices (mp_token mp) = None \<or> (\<exists>q0. prices (mp_token mp) = Some q0 \<and> price q0 = 0))"
  then have "no_price prices (mp_token mp)"
    by (auto simp: no_price_def)
  with a have "mergedPrices prices manualPrices (mp_token mp) = Some (manual_quote mp)"
    by (simp add: mergedPrices_def foldl_merge_manual)
  then show "\<exists>r. mergedPrices prices manualPrices (mp_token mp) = Some r
             \<and> price r = mp_price mp \<and> isManual r
             \<and> percent_change_24h r = None \<and> percent_change_7d r = None
             \<and> percent_change_30d r = None \<and> percent_change_60d r = None"
    by (simp add: manual_quote_def)
next
  assume "k \<notin> mp_token ` set manualPrices"
  then show "mergedPrices prices manualPrices k = prices k"
    by (simp add: mergedPrices_def foldl_merge_absent)
qed

text \<open>The scenario of the specification: BTC has a live quote, XYZ only an override.\<close>

theorem merged_prices_witness:
  "mergedPrices [''BTC'' \<mapsto> live_quote 50000] [xyz_manual] ''BTC'' = Some (live_quote 50000)
   \<and> (\<exists>r. mergedPrices [''BTC'' \<mapsto> live_quote 50000] [xyz_manual] ''XYZ'' = Some r
          \<and> price r = 10 \<and> isManual r
          \<and> percent_change_24h r = None \<and> percent_change_7d r = None
          \<and> percent_change_30d r = None \<and> percent_change_60d r = None)"
  using merged_prices [of "[''BTC'' \<mapsto> live_quote 50000]" "''BTC''" "live_quote 50000"
      "[xyz_manual]" xyz_manual]
  by (simp add: xyz_manual_def live_quote_def)

text \<open>
  C5 as stated fails for a token that is present in the live quotes with price 0 (what
  \<^verbatim>\<open>GET /prices\<close> sends when the feed has no price): the override replaces the quote.
\<close>

theorem merged_prices_counterexample:
  "[''XYZ'' \<mapsto> live_quote 0] ''XYZ'' = Some (live_quote 0)
   \<and> mergedPrices [''XYZ'' \<mapsto> live_quote 0] [xyz_manual] ''XYZ'' = Some (manual_quote xyz_manual)
   \<and> manual_quote xyz_manual \<noteq> live_quote 0"
  by (simp add: mergedPrices_def merge_step_def no_price_def xyz_manual_def live_quote_def
      manual_quote_def)

subsection \<open>The total portfolio value\<close>

lemma toNumber_num0: "toNumber v = Fin (num0 v)"
  by (cases v) (simp_all add: toNumber_def num0_def)

lemma foldl_value:
  "foldl (\<lambda>tv h. jadd tv (jmul (toNumber (total_units h)) (Fin (p h)))) (Fin a) hs
     = Fin (a + sum_list (map (\<lambda>h. num0 (total_units h) * p h) hs))"
  by (induction hs arbitrary: a) (simp_all add: toNumber_num0 add.assoc)

lemma calculatePortfolioValue_eq:
  "calculatePortfolioValue hs m ud
     = Fin (sum_list (map (\<lambda>h. num0 (total_units h) * price_or0 m (upper (h_token h))) hs)
            + (case ud of None \<Rightarrow> 0 | Some u \<Rightarrow> usdc_balance u))"
  by (cases ud) (simp_all add: calculatePortfolioValue_def Let_def foldl_value)



lemma upper_USDC: "upper ''USDC'' = ''USDC''"
  by (simp add: upper_def upper_char_def)





subsection \<open>The return calculator\<close>

lemma pop_eq_None: "pop xs = None \<longleftrightarrow> xs = []"
  by (simp add: pop_def)

lemma lastMonthRecord_None:
  "lastMonthRecord perfTracker currentMonth = None
     \<longleftrightarrow> (\<forall>p\<in>set perfTracker. \<not> p_month p < currentMonth)"
  by (simp add: lastMonthRecord_def sortedPerf_def pop_eq_None filter_empty_conv)

lemma sorted_map_last:
  fixes f :: "'a \<Rightarrow> 'k::linorder"
  shows "sorted (map f xs) \<Longrightarrow> x \<in> set xs \<Longrightarrow> f x \<le> f (last xs)"
  by (induction xs) auto

lemma lastMonthRecord_latest:
  assumes d: "distinct (map p_month perfTracker)"
    and r: "r \<in> set perfTracker" "p_month r < currentMonth"
    and mx: "\<forall>p\<in>set perfTracker. p_month p < currentMonth \<longrightarrow> p_month p \<le> p_month r"
  shows "lastMonthRecord perfTracker currentMonth = Some r"
proof -
  let ?ys = "filter (\<lambda>p. p_month p < currentMonth) (sortedPerf perfTracker)"
  have r_in: "r \<in> set ?ys"
    using r by (simp add: sortedPerf_def)
  then have ne: "?ys \<noteq> []" by (metis empty_iff list.set(1))
  have "sorted (map p_month ?ys)"
    by (simp add: sortedPerf_def sorted_filter)
  then have le: "p_month r \<le> p_month (last ?ys)"
    using r_in by (rule sorted_map_last)
  from ne have l_in: "last ?ys \<in> set ?ys" by (rule last_in_set)
  then have l_perf: "last ?ys \<in> set perfTracker" and "p_month (last ?ys) < currentMonth"
    by (simp_all add: sortedPerf_def)
  with mx have "p_month (last ?ys) \<le> p_month r" by blast
  with le have "p_month (last ?ys) = p_month r" by simp
  moreover from d have "inj_on p_month (set perfTracker)"
    by (simp add: distinct_map)
  ultimately have "last ?ys = r"
    using l_perf r(1) by (simp add: inj_on_def)
  with ne show ?thesis
    by (simp add: lastMonthRecord_def pop_def)
qed

lemma subscriptions_or0_eq:
  "subscriptions_or0 usdcData = Fin (case usdcData of None \<Rightarrow> 0 | Some u \<Rightarrow> total_subscriptions u)"
  by (cases usdcData) (simp_all add: subscriptions_or0_def)

lemma ending_value_or_Some:
  "ending_value_or (Some r) fb = (if num0 (ending_value r) = 0 then fb else Fin (num0 (ending_value r)))"
  by (cases "ending_value r") (simp_all add: ending_value_or_def num0_def)

lemma ending_value_or_finite: "is_finite fb \<Longrightarrow> is_finite (ending_value_or r fb)"
  by (cases r) (simp_all add: ending_value_or_Some, simp add: ending_value_or_def)

lemma is_finite_iff: "is_finite x \<longleftrightarrow> (\<exists>a. x = Fin a)"
  by (cases x) simp_all

lemma beginningValue_finite: "is_finite (beginningValue perfTracker usdcData currentMonth)"
  by (simp add: beginningValue_def ending_value_or_finite subscriptions_or0_eq)

lemma return_pct_Fin:
  "return_pct (Fin t) (Fin b) = (if 0 < b then Fin ((t / b - 1) * 100) else Fin 0)"
  by (simp add: return_pct_def jsub_def)

lemma calculatePortfolioValue_finite: "is_finite (calculatePortfolioValue hs m ud)"
  by (simp add: calculatePortfolioValue_eq)

text \<open>
  C3 (amended). In the return calculator, for every list of monthly performance
  records (months are unique), beginning_of_month_value equals the ending_value of the
  latest record whose month is strictly before the current month when that value is
  not zero or null; the fallback to total_subscriptions is used when no such record
  exists or when its ending_value is zero or null. MTD then equals
  (current_total_value / beginning_of_month_value - 1) x 100, and 0 when the
  denominator is not positive.
\<close>

theorem beginning_of_month_value:
  "((\<forall>p\<in>set perfTracker. \<not> p_month p < currentMonth)
      \<longrightarrow> beginningValue perfTracker usdcData currentMonth
          = Fin (case usdcData of None \<Rightarrow> 0 | Some u \<Rightarrow> total_subscriptions u))
   \<and> (distinct (map p_month perfTracker) \<and> r \<in> set perfTracker \<and> p_month r < currentMonth
        \<and> (\<forall>p\<in>set perfTracker. p_month p < currentMonth \<longrightarrow> p_month p \<le> p_month r)
      \<longrightarrow> beginningValue perfTracker usdcData currentMonth
          = (if num0 (ending_value r) = 0
             then Fin (case usdcData of None \<Rightarrow> 0 | Some u \<Rightarrow> total_subscriptions u)
             else Fin (num0 (ending_value r))))
   \<and> (\<exists>t b. calculatePortfolioValue holdings merged usdcData = Fin t
          \<and> beginningValue perfTracker usdcData currentMonth = Fin b
          \<and> mtd (calculateReturns holdings merged usdcData perfTracker currentMonth currentYear)
              = (if 0 < b then Fin ((t / b - 1) * 100) else Fin 0))"
proof (intro conjI impI)
  assume "\<forall>p\<in>set perfTracker. \<not> p_month p < currentMonth"
  then have "lastMonthRecord perfTracker currentMonth = None"
    by (simp add: lastMonthRecord_None)
  then show "beginningValue perfTracker usdcData currentMonth
          = Fin (case usdcData of None \<Rightarrow> 0 | Some u \<Rightarrow> total_subscriptions u)"
    by (simp add: beginningValue_def ending_value_or_def subscriptions_or0_eq)
next
  assume "distinct (map p_month perfTracker) \<and> r \<in> set perfTracker \<and> p_month r < currentMonth
        \<and> (\<forall>p\<in>set perfTracker. p_month p < currentMonth \<longrightarrow> p_month p \<le> p_month r)"
  then have "lastMonthRecord perfTracker currentMonth = Some r"
    by (simp add: lastMonthRecord_latest)
  then show "beginningValue perfTracker usdcData currentMonth
          = (if num0 (ending_value r) = 0
             then Fin (case usdcData of None \<Rightarrow> 0 | Some u \<Rightarrow> total_subscriptions u)
             else Fin (num0 (ending_value r)))"
    by (simp add: beginningValue_def ending_value_or_Some subscriptions_or0_eq)
next
  obtain t where t: "calculatePortfolioValue holdings merged usdcData = Fin t"
    using calculatePortfolioValue_finite is_finite_iff by blast
  obtain b where b: "beginningValue perfTracker usdcData currentMonth = Fin b"
    using beginningValue_finite is_finite_iff by blast
  have "mtd (calculateReturns holdings merged usdcData perfTracker currentMonth currentYear)
      = (if 0 < b then Fin ((t / b - 1) * 100) else Fin 0)"
    by (simp add: calculateReturns_def Let_def t b return_pct_Fin)
  with t b show "\<exists>t b. calculatePortfolioValue holdings merged usdcData = Fin t
          \<and> beginningValue perfTracker usdcData currentMonth = Fin b
          \<and> mtd (calculateReturns holdings merged usdcData perfTracker currentMonth currentYear)
              = (if 0 < b then Fin ((t / b - 1) * 100) else Fin 0)"
    by blast
qed



lemma overflow_Fin: "overflow x = Fin y \<Longrightarrow> y = x"
  by (auto simp: overflow_def split: if_splits)

lemma dadd_Fin_iff: "dadd a b = Fin r \<Longrightarrow> \<exists>x y. a = Fin x \<and> b = Fin y \<and> r = x + y"
  by (cases a; cases b) (auto dest: overflow_Fin)

lemma foldl_value_double:
  "foldl (\<lambda>totalValue holding.
            dadd totalValue
              (dmul (toNumber (total_units holding)) (Fin (price_or0 m (upper (h_token holding))))))
     acc hs = Fin r
   \<Longrightarrow> \<exists>a. acc = Fin a \<and> r = a + sum_list (map (holding_value m) hs)"
proof (induction hs arbitrary: acc r)
  case Nil
  then show ?case by simp
next
  case (Cons h hs)
  from Cons.prems obtain a where
    a: "dadd acc (dmul (toNumber (total_units h)) (Fin (price_or0 m (upper (h_token h))))) = Fin a"
    and r: "r = a + sum_list (map (holding_value m) hs)"
    using Cons.IH by fastforce
  from a obtain x y where x: "acc = Fin x"
    and y: "dmul (toNumber (total_units h)) (Fin (price_or0 m (upper (h_token h)))) = Fin y"
    and axy: "a = x + y"
    using dadd_Fin_iff by blast
  from y have "y = holding_value m h"
    by (auto simp: toNumber_num0 holding_value_def dest: overflow_Fin)
  with x axy r show ?case by simp
qed

lemma calculatePortfolioValue_double_Fin:
  "calculatePortfolioValue_double hs m ud = Fin t
   \<Longrightarrow> calculatePortfolioValue hs m ud = Fin t"
proof (cases ud)
  case None
  assume "calculatePortfolioValue_double hs m ud = Fin t"
  with None show ?thesis
    by (auto simp: calculatePortfolioValue_double_def calculatePortfolioValue_eq
        holding_value_def [abs_def] dest!: foldl_value_double)
next
  case (Some u)
  assume "calculatePortfolioValue_double hs m ud = Fin t"
  with Some show ?thesis
    by (auto simp: calculatePortfolioValue_double_def calculatePortfolioValue_eq
        holding_value_def [abs_def] dest!: dadd_Fin_iff foldl_value_double)
qed














lemma btc_value:
  "calculatePortfolioValue [btc_holding] [''BTC'' \<mapsto> live_quote 60000] (Some invested_cash) = Fin 120000"
  by (simp add: calculatePortfolioValue_eq btc_holding_def invested_cash_def live_quote_def
      price_or0_def num0_def upper_def upper_char_def)

text \<open>
  No record at all gives the subscriptions; with records for January to March, the
  value for March is February's 80000, and a total of 120000 is an MTD of 50.
\<close>

theorem beginning_of_month_value_witness:
  "beginningValue [] (Some invested_cash) ''2024-03'' = Fin 100000
   \<and> beginningValue [perf_record 2 ''2024-02'' 80000, perf_record 3 ''2024-03'' 0,
                     perf_record 4 ''2024-01'' 90000]
        (Some invested_cash) ''2024-03'' = Fin 80000
   \<and> mtd (calculateReturns [btc_holding] [''BTC'' \<mapsto> live_quote 60000] (Some invested_cash)
            [perf_record 2 ''2024-02'' 80000, perf_record 3 ''2024-03'' 0,
             perf_record 4 ''2024-01'' 90000] ''2024-03'' 2024) = Fin 50"
proof -
  let ?P = "[perf_record 2 ''2024-02'' 80000, perf_record 3 ''2024-03'' 0,
             perf_record 4 ''2024-01'' 90000]"
  let ?r = "perf_record 2 ''2024-02'' 80000"
  let ?m = "[''BTC'' \<mapsto> live_quote 60000]"
  have h1: "\<forall>p\<in>set ([] :: real option perf_row list). \<not> p_month p < ''2024-03''"
    by simp
  from beginning_of_month_value [of "[]" "''2024-03''" "Some invested_cash" ?r "[btc_holding]" ?m 2024] h1
  have a: "beginningValue [] (Some invested_cash) ''2024-03'' = Fin 100000"
    by (simp add: invested_cash_def)
  have h2: "distinct (map p_month ?P) \<and> ?r \<in> set ?P \<and> p_month ?r < ''2024-03''
        \<and> (\<forall>p\<in>set ?P. p_month p < ''2024-03'' \<longrightarrow> p_month p \<le> p_month ?r)"
    by (simp add: perf_record_def)
  have e: "num0 (ending_value ?r) = 80000"
    by (simp add: perf_record_def num0_def)
  from beginning_of_month_value [of ?P "''2024-03''" "Some invested_cash" ?r "[btc_holding]" ?m 2024] h2
  have b: "beginningValue ?P (Some invested_cash) ''2024-03'' = Fin 80000"
    by (simp only: e) simp
  from beginning_of_month_value [of ?P "''2024-03''" "Some invested_cash" ?r "[btc_holding]" ?m 2024]
  have "mtd (calculateReturns [btc_holding] ?m (Some invested_cash) ?P ''2024-03'' 2024) = Fin 50"
    by (simp only: b btc_value) simp
  with a b show ?thesis by simp
qed

text \<open>
  C3 as stated fails when the latest earlier record has an ending value of 0 (what the
  upsert stores for an empty field): the record exists, and the code still falls back
  to the subscriptions of 100000, so that MTD is 20 and not 0.
\<close>

theorem beginning_of_month_value_counterexample:
  "lastMonthRecord [perf_record 12 ''2025-12'' 0] ''2026-01'' = Some (perf_record 12 ''2025-12'' 0)
   \<and> ending_value (perf_record 12 ''2025-12'' 0) = Some 0
   \<and> spec_beginning_value [perf_record 12 ''2025-12'' 0] (Some invested_cash) ''2026-01'' = Fin 0
   \<and> beginningValue [perf_record 12 ''2025-12'' 0] (Some invested_cash) ''2026-01'' = Fin 100000
   \<and> mtd (calculateReturns [btc_holding] [''BTC'' \<mapsto> live_quote 60000] (Some invested_cash)
            [perf_record 12 ''2025-12'' 0] ''2026-01'' 2026) = Fin 20"
proof -
  have l: "lastMonthRecord [perf_record 12 ''2025-12'' 0] ''2026-01'' = Some (perf_record 12 ''2025-12'' 0)"
    by (simp add: lastMonthRecord_def sortedPerf_def pop_def perf_record_def)
  have e: "ending_value (perf_record 12 ''2025-12'' 0) = Some 0"
    by (simp add: perf_record_def)
  have s: "spec_beginning_value [perf_record 12 ''2025-12'' 0] (Some invested_cash) ''2026-01'' = Fin 0"
    by (simp add: spec_beginning_value_def l e toNumber_def)
  have b: "beginningValue [perf_record 12 ''2025-12'' 0] (Some invested_cash) ''2026-01'' = Fin 100000"
    by (simp add: beginningValue_def l ending_value_or_def e subscriptions_or0_def invested_cash_def)
  have m: "mtd (calculateReturns [btc_holding] [''BTC'' \<mapsto> live_quote 60000] (Some invested_cash)
            [perf_record 12 ''2025-12'' 0] ''2026-01'' 2026) = Fin 20"
    by (simp add: calculateReturns_def Let_def btc_value b return_pct_Fin)
  from l e s b m show ?thesis by simp
qed

subsection \<open>The synthetic USDC holding\<close>

lemma enrich_token_not_USDC:
  "upper (h_token h) \<noteq> ''USDC'' \<Longrightarrow> eh_token (enrich prices cmc pv h) \<noteq> ''USDC''"
  by (auto simp: enrich_def Let_def upper_USDC)

lemma enrichedHoldings_USDC_iff:
  "e \<in> set (enrichedHoldings holdings prices cmc usdcData pv) \<and> eh_token e = ''USDC''
     \<longleftrightarrow> (\<exists>u. usdcData = Some u \<and> usdc_balance u \<noteq> 0 \<and> e = usdc_item u pv)"
  by (cases usdcData) (auto simp: enrichedHoldings_def enrich_token_not_USDC usdc_item_def)

text \<open>
  C4 (amended). In the valuation of the portfolio table, the synthetic USDC holding is
  in the per-holding list if and only if the cash data is there and its usdc_balance
  is nonzero; when included it has price 1, market value, units and cost basis equal
  to usdc_balance, pnl 0, and all four percent-change fields equal to 0.
\<close>

theorem usdc_synthetic_holding:
  "((\<exists>e. e \<in> set (enrichedHoldings holdings prices cmcPrices usdcData portfolioValue)
          \<and> eh_token e = ''USDC'')
      \<longleftrightarrow> (\<exists>u. usdcData = Some u \<and> usdc_balance u \<noteq> 0))
   \<and> (e \<in> set (enrichedHoldings holdings prices cmcPrices usdcData portfolioValue)
        \<and> eh_token e = ''USDC''
      \<longrightarrow> (\<exists>u. usdcData = Some u \<and> currentPrice e = 1
             \<and> currentValue e = Fin (usdc_balance u) \<and> eh_cost_basis e = Some (usdc_balance u)
             \<and> eh_total_units e = Some (usdc_balance u) \<and> pnl e = Fin 0
             \<and> eh_percent_change_24h e = Some 0 \<and> eh_percent_change_7d e = Some 0
             \<and> eh_percent_change_30d e = Some 0 \<and> eh_percent_change_60d e = Some 0))"
proof (intro conjI impI)
  show "(\<exists>e. e \<in> set (enrichedHoldings holdings prices cmcPrices usdcData portfolioValue)
          \<and> eh_token e = ''USDC'')
      \<longleftrightarrow> (\<exists>u. usdcData = Some u \<and> usdc_balance u \<noteq> 0)"
    by (auto simp: enrichedHoldings_USDC_iff)
next
  assume "e \<in> set (enrichedHoldings holdings prices cmcPrices usdcData portfolioValue)
        \<and> eh_token e = ''USDC''"
  then obtain u where "usdcData = Some u" "e = usdc_item u portfolioValue"
    by (auto simp: enrichedHoldings_USDC_iff)
  then show "\<exists>u. usdcData = Some u \<and> currentPrice e = 1
             \<and> currentValue e = Fin (usdc_balance u) \<and> eh_cost_basis e = Some (usdc_balance u)
             \<and> eh_total_units e = Some (usdc_balance u) \<and> pnl e = Fin 0
             \<and> eh_percent_change_24h e = Some 0 \<and> eh_percent_change_7d e = Some 0
             \<and> eh_percent_change_30d e = Some 0 \<and> eh_percent_change_60d e = Some 0"
    by (simp add: usdc_item_def)
qed

text \<open>The scenario of the specification: a residual of 45000.\<close>

theorem usdc_synthetic_holding_witness:
  "usdc_item residual_cash (Fin 45000)
     \<in> set (enrichedHoldings [] Map.empty Map.empty (Some residual_cash) (Fin 45000))
   \<and> currentPrice (usdc_item residual_cash (Fin 45000)) = 1
   \<and> currentValue (usdc_item residual_cash (Fin 45000)) = Fin 45000
   \<and> eh_cost_basis (usdc_item residual_cash (Fin 45000)) = Some 45000
   \<and> pnl (usdc_item residual_cash (Fin 45000)) = Fin 0
   \<and> eh_percent_change_24h (usdc_item residual_cash (Fin 45000)) = Some 0"
proof -
  have m: "usdc_item residual_cash (Fin 45000)
     \<in> set (enrichedHoldings [] Map.empty Map.empty (Some residual_cash) (Fin 45000))"
    by (simp add: enrichedHoldings_def residual_cash_def)
  have t: "eh_token (usdc_item residual_cash (Fin 45000)) = ''USDC''"
    by (simp add: usdc_item_def)
  have b: "usdc_balance residual_cash = 45000"
    by (simp add: residual_cash_def)
  from usdc_synthetic_holding [of "[]" Map.empty Map.empty "Some residual_cash" "Fin 45000"
      "usdc_item residual_cash (Fin 45000)"] m t b
  show ?thesis by simp
qed

text \<open>
  C4 as stated fails on the trend fields: the pushed object carries 0 in all four
  percent changes, not null.
\<close>

theorem usdc_synthetic_holding_counterexample:
  "enrichedHoldings [] Map.empty Map.empty (Some residual_cash) (Fin 45000)
     = [usdc_item residual_cash (Fin 45000)]
   \<and> eh_percent_change_24h (usdc_item residual_cash (Fin 45000)) = Some 0
   \<and> eh_percent_change_7d (usdc_item residual_cash (Fin 45000)) = Some 0
   \<and> eh_percent_change_30d (usdc_item residual_cash (Fin 45000)) = Some 0
   \<and> eh_percent_change_60d (usdc_item residual_cash (Fin 45000)) = Some 0
   \<and> eh_percent_change_24h (usdc_item residual_cash (Fin 45000)) \<noteq> None"
  by (simp add: enrichedHoldings_def residual_cash_def usdc_item_def)

subsection \<open>The bulk import of trades\<close>

lemma counted_skip_no_token: "counted (skip_no_token i st) = bump (counted st)"
  by (simp add: counted_def bump_def skip_no_token_def reasons_total_def)

lemma counted_skip_invalid_units: "counted (skip_invalid_units i st) = bump (counted st)"
  by (simp add: counted_def bump_def skip_invalid_units_def reasons_total_def)

lemma counted_skip_zero_units: "counted (skip_zero_units i st) = bump (counted st)"
  by (simp add: counted_def bump_def skip_zero_units_def reasons_total_def)

lemma counted_insert_trade: "counted (insert_trade run i params st) = bump (counted st)"
  by (cases "run params") (simp_all add: counted_def bump_def insert_trade_def reasons_total_def)

lemma counted_trade_row_step: "counted (trade_row_step env run i row st) = bump (counted st)"
  unfolding trade_row_step_def Let_def
  by (simp only: counted_skip_no_token counted_skip_invalid_units counted_skip_zero_units
      counted_insert_trade if_distrib [of counted] if_cancel)

lemma counted_upload_rows:
  "counted (upload_rows (trade_row_step env run) i rows st) = (bump ^^ length rows) (counted st)"
  by (induction rows arbitrary: i st) (simp_all add: counted_trade_row_step funpow_swap1)

lemma bump_funpow: "(bump ^^ n) (a, b, c) = (a + n, b + n, c)"
  by (induction n) (simp_all add: bump_def)

text \<open>
  Every row is processed and counted once: the answer has imported + skipped = total,
  the total being the number of rows, whatever the store does with each insert. The
  reason counter \<open>other\<close> is 0 in every answer.
\<close>

lemma upload_trades_batch:
  "upload_trades env run rows = Inr r \<Longrightarrow>
     r_imported r + r_skipped r = r_total r \<and> r_total r = length rows
     \<and> other (r_skippedReasons r) = 0"
proof -
  assume a: "upload_trades env run rows = Inr r"
  let ?st = "upload_rows (trade_row_step env run) 0 rows initial_state"
  have "counted ?st = (bump ^^ length rows) (counted initial_state)"
    by (rule counted_upload_rows)
  also have "counted initial_state = (0, 0, 0)"
    by (simp add: counted_def initial_state_def reasons_total_def)
  finally have c: "counted ?st = (length rows, length rows, 0)"
    by (simp add: bump_funpow)
  from a have r: "r_imported r = imported ?st" "r_skipped r = skipped ?st" "r_total r = length rows"
    "r_skippedReasons r = skippedReasons ?st"
    by (auto simp: upload_trades_def Let_def split: if_splits)
  from c r show ?thesis
    by (simp add: counted_def)
qed

lemma btc_row_columns:
  "getColumnValue btc_row [''Token'', ''token'', ''TOKEN'', ''SYMBOL'', ''Symbol''] = CStr ''BTC''"
  "getColumnValue btc_row [''Units'', ''units'', ''UNITS'', ''Quantity'', ''quantity'', ''QTY'', ''Qty''] = CNum 1"
  by (simp_all add: btc_row_def getColumnValue_def)

lemma btc_row_step:
  "trade_row_step env store_locked 0 btc_row initial_state
     = initial_state\<lparr>errors := [(2, ''database is locked'')], skipped := 1\<rparr>"
  unfolding trade_row_step_def Let_def btc_row_columns
  by (simp add: trim_def is_space_def insert_trade_def initial_state_def store_locked_def)

text \<open>
  C8. The bulk import processes every row, never aborts the batch for one row, reports
  imported + skipped = total, and attributes each skipped row to a reason code (no
  token, zero units, invalid units, other). The code does the first three; the last
  fails for a row whose insert throws: the \<^verbatim>\<open>catch\<close> block counts the row as skipped
  and records the message, and leaves every reason counter, \<open>other\<close> included, at 0.
\<close>

theorem upload_trades_other_not_counted:
  "upload_trades env store_locked [btc_row]
     = Inr \<lparr>r_imported = 0, r_skipped = 1, r_total = 1,
            r_skippedReasons = \<lparr>noToken = 0, zeroUnits = 0, invalidUnits = 0, other = 0\<rparr>,
            r_skippedRows = [], r_errors = [(2, ''database is locked'')],
            r_inserted = []\<rparr>"
  by (simp add: upload_trades_def Let_def btc_row_step) (simp add: initial_state_def)

subsection \<open>Re-submitting a month\<close>

lemma upsert_all_columns_conflict:
  assumes "p_month new \<in> set (map p_month rows)"
  shows "(\<exists>r\<in>set (upsert_all_columns new rows). p_month r = p_month new)
       \<and> (\<forall>r\<in>set (upsert_all_columns new rows). p_month r = p_month new
             \<longrightarrow> same_returns r new \<and> same_expenses r new)"
proof -
  from assms obtain old where o: "old \<in> set rows" "p_month old = p_month new"
    by auto
  then have "new\<lparr>p_id := p_id old\<rparr> \<in> set (upsert_all_columns new rows)"
    using assms by (force simp: upsert_all_columns_def)
  then have "\<exists>r\<in>set (upsert_all_columns new rows). p_month r = p_month new"
    by (rule rev_bexI) simp
  moreover have "\<forall>r\<in>set (upsert_all_columns new rows). p_month r = p_month new
             \<longrightarrow> same_returns r new \<and> same_expenses r new"
    using assms by (auto simp: upsert_all_columns_def same_returns_def same_expenses_def)
  ultimately show ?thesis by simp
qed

lemma set_return_columns_fields:
  "same_returns (set_return_columns new r) new \<and> same_expenses (set_return_columns new r) r
   \<and> p_month (set_return_columns new r) = p_month r \<and> p_id (set_return_columns new r) = p_id r"
  by (simp add: set_return_columns_def same_returns_def same_expenses_def)

lemma upsert_return_columns_conflict:
  assumes d: "distinct (map p_month rows)" and o: "old \<in> set rows" "p_month old = p_month new"
  shows "(\<exists>r\<in>set (upsert_return_columns dflt new rows). p_month r = p_month new)
       \<and> (\<forall>r\<in>set (upsert_return_columns dflt new rows). p_month r = p_month new
             \<longrightarrow> same_returns r new \<and> same_expenses r old \<and> p_id r = p_id old)"
proof -
  from o have "p_month new \<in> p_month ` set rows" by (metis imageI)
  then have c: "p_month new \<in> set (map p_month rows)" by simp
  from d have inj: "inj_on p_month (set rows)" by (simp add: distinct_map)
  have "set_return_columns new old \<in> set (upsert_return_columns dflt new rows)"
    using c o by (force simp: upsert_return_columns_def)
  then have ex: "\<exists>r\<in>set (upsert_return_columns dflt new rows). p_month r = p_month new"
    using o(2) set_return_columns_fields by metis
  have "same_returns r new \<and> same_expenses r old \<and> p_id r = p_id old"
    if r: "r \<in> set (upsert_return_columns dflt new rows)" "p_month r = p_month new" for r
  proof -
    from r(1) c obtain r0 where r0: "r0 \<in> set rows"
      "r = (if p_month r0 = p_month new then set_return_columns new r0 else r0)"
      by (auto simp: upsert_return_columns_def)
    with r(2) have m: "p_month r0 = p_month new"
      by (auto split: if_splits)
    with inj r0(1) o have "r0 = old" by (simp add: inj_on_def)
    with r0(2) m show ?thesis by (simp add: set_return_columns_fields)
  qed
  with ex show ?thesis by blast
qed

lemma upload_one_row:
  assumes "parseMonthValue (getColumnValue row [''MONTH'', ''Month'', ''month'']) = Some m"
    and "m \<noteq> []" and "stmt_run (perf_params m row) = None"
  shows "upload_perf_tracker stmt_run [row] table
     = Inr \<lparr>pu_imported = 1, pu_skipped = 0, pu_errors = [],
            pu_table = upsert_return_columns (Some (Fin 0)) (perf_params m row) table\<rparr>"
  using assms by (simp add: upload_perf_tracker_def perf_row_step_def)

lemma p_month_perf_params: "p_month (perf_params m row) = m"
  by (simp add: perf_params_def)

text \<open>
  C9 (amended). For every monthly performance upsert through the manual endpoint that
  re-submits an existing month, the stored record for that month afterwards has all of
  its fields overwritten with the submitted values (a missing one as 0): gp_subs,
  lp_subs, initial_value, ending_value, the benchmark returns, fund_expenses,
  mgmt_fees and setup_costs. A spreadsheet upload that re-submits an existing month
  overwrites gp_subs, lp_subs, initial_value, ending_value and the benchmark returns
  with the values of the sheet, and leaves fund_expenses, mgmt_fees and setup_costs
  (and the id) as stored.
\<close>

theorem perf_upsert_overwrites:
  "(p_month body \<in> set (map p_month rows)
      \<longrightarrow> (\<exists>r\<in>set (post_perf_tracker body rows). p_month r = p_month body)
        \<and> (\<forall>r\<in>set (post_perf_tracker body rows). p_month r = p_month body
              \<longrightarrow> same_returns r (bound_body body) \<and> same_expenses r (bound_body body)))
   \<and> (parseMonthValue (getColumnValue row [''MONTH'', ''Month'', ''month'']) = Some m \<and> m \<noteq> []
        \<and> stmt_run (perf_params m row) = None
        \<and> distinct (map p_month table) \<and> old \<in> set table \<and> p_month old = m
      \<longrightarrow> (\<exists>st. upload_perf_tracker stmt_run [row] table = Inr st
             \<and> (\<exists>r\<in>set (pu_table st). p_month r = m)
             \<and> (\<forall>r\<in>set (pu_table st). p_month r = m
                   \<longrightarrow> same_returns r (perf_params m row) \<and> same_expenses r old
                       \<and> p_id r = p_id old)))"
proof (rule conjI; rule impI)
  assume "p_month body \<in> set (map p_month rows)"
  then have "p_month (bound_body body) \<in> set (map p_month rows)"
    by (simp add: bound_body_def)
  from upsert_all_columns_conflict [OF this]
  show "(\<exists>r\<in>set (post_perf_tracker body rows). p_month r = p_month body)
        \<and> (\<forall>r\<in>set (post_perf_tracker body rows). p_month r = p_month body
              \<longrightarrow> same_returns r (bound_body body) \<and> same_expenses r (bound_body body))"
    by (simp add: post_perf_tracker_def) (simp add: bound_body_def)
next
  assume a: "parseMonthValue (getColumnValue row [''MONTH'', ''Month'', ''month'']) = Some m \<and> m \<noteq> []
        \<and> stmt_run (perf_params m row) = None
        \<and> distinct (map p_month table) \<and> old \<in> set table \<and> p_month old = m"
  then have u: "upload_perf_tracker stmt_run [row] table
     = Inr \<lparr>pu_imported = 1, pu_skipped = 0, pu_errors = [],
            pu_table = upsert_return_columns (Some (Fin 0)) (perf_params m row) table\<rparr>"
    by (simp add: upload_one_row)
  from a have "distinct (map p_month table)" "old \<in> set table"
    "p_month old = p_month (perf_params m row)"
    by (simp_all add: p_month_perf_params)
  from upsert_return_columns_conflict [OF this, of "Some (Fin 0)"] u
  show "\<exists>st. upload_perf_tracker stmt_run [row] table = Inr st
             \<and> (\<exists>r\<in>set (pu_table st). p_month r = m)
             \<and> (\<forall>r\<in>set (pu_table st). p_month r = m
                   \<longrightarrow> same_returns r (perf_params m row) \<and> same_expenses r old
                       \<and> p_id r = p_id old)"
    by (simp add: p_month_perf_params)
qed

lemma january_row_month:
  "parseMonthValue (getColumnValue january_row [''MONTH'', ''Month'', ''month'']) = Some ''2024-01''"
  by (simp add: january_row_def getColumnValue_def parseMonthValue_def Let_def trim_def
      is_space_def is_alpha_def digits_between_def is_digit_def)

text \<open>January 2024 re-submitted through the endpoint, and through a sheet.\<close>

theorem perf_upsert_overwrites_witness:
  "same_returns (hd (post_perf_tracker january_body [january_real])) (bound_body january_body)
   \<and> same_expenses (hd (post_perf_tracker january_body [january_real])) (bound_body january_body)
   \<and> fund_expenses (hd (post_perf_tracker january_body [january_real])) = Some 7
   \<and> (\<exists>st. upload_perf_tracker store_ok [january_row] [january_stored] = Inr st
         \<and> (\<exists>r\<in>set (pu_table st). p_month r = ''2024-01'')
         \<and> (\<forall>r\<in>set (pu_table st). p_month r = ''2024-01''
               \<longrightarrow> same_returns r (perf_params ''2024-01'' january_row)
                   \<and> same_expenses r january_stored \<and> p_id r = 7))"
proof -
  let ?R = "hd (post_perf_tracker january_body [january_real])"
  have m: "p_month january_body = ''2024-01''" "p_month january_real = ''2024-01''"
    by (simp_all add: january_body_def january_real_def perf_record_def)
  have in_set: "?R \<in> set (post_perf_tracker january_body [january_real])"
    by (simp add: post_perf_tracker_def upsert_all_columns_def m)
  have month: "p_month ?R = p_month january_body"
    by (simp add: post_perf_tracker_def upsert_all_columns_def m)
  have h1: "p_month january_body \<in> set (map p_month [january_real])"
    by (simp add: m)
  from perf_upsert_overwrites [of january_body "[january_real]" january_row "''2024-01''"
      store_ok "[january_stored]" january_stored] h1 in_set month
  have s: "same_returns ?R (bound_body january_body) \<and> same_expenses ?R (bound_body january_body)"
    by blast
  then have f: "fund_expenses ?R = Some 7"
    by (simp add: same_expenses_def bound_body_def january_body_def perf_record_def or0_def)
  have h2: "distinct (map p_month [january_stored]) \<and> january_stored \<in> set [january_stored]
      \<and> p_month january_stored = ''2024-01''"
    by (simp add: january_stored_def)
  have i: "p_id january_stored = 7"
    by (simp add: january_stored_def)
  from perf_upsert_overwrites [of january_body "[january_real]" january_row "''2024-01''"
      store_ok "[january_stored]" january_stored] january_row_month h2
  have "\<exists>st. upload_perf_tracker store_ok [january_row] [january_stored] = Inr st
         \<and> (\<exists>r\<in>set (pu_table st). p_month r = ''2024-01'')
         \<and> (\<forall>r\<in>set (pu_table st). p_month r = ''2024-01''
               \<longrightarrow> same_returns r (perf_params ''2024-01'' january_row)
                   \<and> same_expenses r january_stored \<and> p_id r = 7)"
    by (simp add: i store_ok_def)
  with s f show ?thesis by simp
qed

text \<open>
  C9 as stated fails for the spreadsheet upload: the row for January 2024 is imported,
  gp_subs becomes the sheet's 1000, and the stored fund expenses stay 500 although the
  sheet has a column of fund expenses with 7.
\<close>

theorem perf_upsert_overwrites_counterexample:
  "upload_perf_tracker store_ok [january_row] [january_stored]
     = Inr \<lparr>pu_imported = 1, pu_skipped = 0, pu_errors = [],
            pu_table = [set_return_columns (perf_params ''2024-01'' january_row) january_stored]\<rparr>
   \<and> gp_subs (set_return_columns (perf_params ''2024-01'' january_row) january_stored)
       = Some (Fin 1000)
   \<and> getColumnValue january_row [''fund_expenses''] = CNum 7
   \<and> fund_expenses january_stored = Some (Fin 500)
   \<and> fund_expenses (set_return_columns (perf_params ''2024-01'' january_row) january_stored)
       = Some (Fin 500)"
proof -
  have u: "upload_perf_tracker store_ok [january_row] [january_stored]
     = Inr \<lparr>pu_imported = 1, pu_skipped = 0, pu_errors = [],
            pu_table = [set_return_columns (perf_params ''2024-01'' january_row) january_stored]\<rparr>"
    by (simp add: upload_one_row [OF january_row_month] store_ok_def upsert_return_columns_def
        p_month_perf_params) (simp add: january_stored_def)
  have g: "gp_subs (set_return_columns (perf_params ''2024-01'' january_row) january_stored)
       = Some (Fin 1000)"
    by (simp add: set_return_columns_def perf_params_def column_number_def january_row_def
        getColumnValue_def)
  have c: "getColumnValue january_row [''fund_expenses''] = CNum 7"
    by (simp add: january_row_def getColumnValue_def)
  have e: "fund_expenses (set_return_columns (perf_params ''2024-01'' january_row) january_stored)
       = Some (Fin 500)"
    by (simp add: set_return_columns_def january_stored_def)
  have e0: "fund_expenses january_stored = Some (Fin 500)"
    by (simp add: january_stored_def)
  from u g c e e0 show ?thesis by simp
qed

end
